theory Spec2Isabelle
  imports Main "HOL-Library.Sublist"
begin

section \<open>AWX exporter: data model\<close>

text \<open>
  The structs of \<^verbatim>\<open>models.go\<close>. Field names carry a short prefix of their struct,
  because several structs share the names \<^verbatim>\<open>ID\<close>, \<^verbatim>\<open>Name\<close>, \<^verbatim>\<open>Results\<close>.
  Go's \<^verbatim>\<open>int\<close> fields hold what the JSON decoder accepted; they are modelled as
  \<^typ>\<open>int\<close>. The nullable \<^verbatim>\<open>*string\<close> is an \<^typ>\<open>string option\<close>.
\<close>

record AWXConfig =
  cfg_Host :: string
  cfg_User :: string
  cfg_Password :: string
  cfg_UseHTTP :: bool
  cfg_TLSInsecure :: bool

record Inventory =
  inv_ID :: int
  inv_Name :: string

record Group =
  grp_ID :: int
  grp_Name :: string

record Groups =
  grps_Count :: int
  grps_Results :: "Group list"

record SummaryFields =
  sf_Inventory :: Inventory
  sf_Groups :: Groups

record Host =
  h_ID :: int
  h_Created :: string
  h_Modified :: string
  h_Name :: string
  h_Inventory :: int
  h_Enabled :: bool
  h_InstanceID :: string
  h_HasActiveFailures :: bool
  h_HasInventorySources :: bool
  h_AnsibleFactsModified :: "string option"
  h_SummaryFields :: SummaryFields

record HostResponse =
  hr_Count :: int
  hr_Next :: string
  hr_Previous :: string
  hr_Results :: "Host list"

text \<open>The job-template exporter has its own structs.\<close>

record TemplateInventory =
  ti_HostsWithFailures :: int
  ti_TotalHosts :: int

record TemplateSummaryFields =
  tsf_Inventory :: TemplateInventory

record JobTemplate =
  jt_ID :: int
  jt_Name :: string
  jt_LastJobRun :: string
  jt_SummaryFields :: TemplateSummaryFields

record Config =
  AWXURL :: string
  AWXUsername :: string
  AWXPassword :: string
  ScrapeInterval :: int
  ListenPort :: string
  InsecureSkipVerify :: bool
  RequestTimeout :: int

section \<open>Library functions the code calls\<close>

text \<open>
  \<^verbatim>\<open>strconv.Itoa\<close> (and \<^verbatim>\<open>fmt.Sprintf("%d", _)\<close>): the decimal numeral of an integer.
\<close>

definition digit_char :: "nat \<Rightarrow> char" where
  "digit_char d = ''0123456789'' ! (d mod 10)"

fun utoa :: "nat \<Rightarrow> string" where
  "utoa n = (if n < 10 then [digit_char n] else utoa (n div 10) @ [digit_char (n mod 10)])"

declare utoa.simps [simp del]

definition Itoa :: "int \<Rightarrow> string" where
  "Itoa i = (if i < 0 then CHR ''-'' # utoa (nat (- i)) else utoa (nat i))"

text \<open>
  \<^verbatim>\<open>strconv.Atoi\<close>: an optional sign, then one or more decimal digits; a value outside
  the 64-bit range is an error, like any other malformed input.
\<close>

definition is_digit :: "char \<Rightarrow> bool" where
  "is_digit c = (c \<in> set ''0123456789'')"

definition digit_value :: "char \<Rightarrow> nat" where
  "digit_value c = of_char c - 48"

definition digits_value :: "string \<Rightarrow> nat" where
  "digits_value ds = foldl (\<lambda>a c. 10 * a + digit_value c) 0 ds"

definition Atoi :: "string \<Rightarrow> int option" where
  "Atoi s =
     (let (neg, ds) =
            (case s of
               [] \<Rightarrow> (False, [])
             | c # r \<Rightarrow> if c = CHR ''-'' then (True, r)
                        else if c = CHR ''+'' then (False, r) else (False, s))
      in if ds = [] \<or> \<not> list_all is_digit ds then None
         else let v = (if neg then - int (digits_value ds) else int (digits_value ds))
              in if v < - (2 ^ 63) \<or> 2 ^ 63 \<le> v then None else Some v)"

text \<open>\<^verbatim>\<open>strings.Contains\<close>: the second string occurs somewhere in the first.\<close>

fun Contains :: "string \<Rightarrow> string \<Rightarrow> bool" where
  "Contains [] substr = (substr = [])"
| "Contains (c # cs) substr = (prefix substr (c # cs) \<or> Contains cs substr)"

text \<open>
  The process environment: \<^verbatim>\<open>os.LookupEnv\<close> is the map itself, \<^verbatim>\<open>os.Getenv\<close>
  gives the empty string for a variable that is not set.
\<close>

type_synonym environ = "string \<rightharpoonup> string"

definition Getenv :: "environ \<Rightarrow> string \<Rightarrow> string" where
  "Getenv env key = (case env key of None \<Rightarrow> [] | Some v \<Rightarrow> v)"

text \<open>
  Signed 64-bit arithmetic of \<^verbatim>\<open>time.Duration\<close> (nanoseconds): results wrap around.
\<close>

definition wrap64 :: "int \<Rightarrow> int" where
  "wrap64 x = (x + 2 ^ 63) mod 2 ^ 64 - 2 ^ 63"

definition Minute :: int where
  "Minute = 60000000000"

definition Second :: int where
  "Second = 1000000000"

text \<open>
  The conversion \<^verbatim>\<open>float64(n)\<close> of an integer: the nearest value with 53 significant
  bits, ties to the even one. Every such value is a whole number, so the result is
  kept as an \<^typ>\<open>int\<close>. Up to \<open>2 ^ 53\<close> in absolute value the conversion is exact.
\<close>

fun dropped_bits :: "nat \<Rightarrow> nat" where
  "dropped_bits n = (if n < 2 ^ 53 then 0 else Suc (dropped_bits (n div 2)))"

declare dropped_bits.simps [simp del]

definition round_to_float64 :: "nat \<Rightarrow> nat" where
  "round_to_float64 n =
     (let e = dropped_bits n; q = n div 2 ^ e; r = n mod 2 ^ e
      in if 2 * r > 2 ^ e \<or> (2 * r = 2 ^ e \<and> odd q) then (q + 1) * 2 ^ e else q * 2 ^ e)"

definition float64 :: "int \<Rightarrow> int" where
  "float64 i = (if i < 0 then - int (round_to_float64 (nat (- i))) else int (round_to_float64 (nat i)))"

text \<open>
  Two library functions are parameters of the model: \<open>tp\<close> stands for
  \<^verbatim>\<open>time.Parse(time.RFC3339, s)\<close> followed by \<^verbatim>\<open>Unix()\<close> (\<open>None\<close> when parsing
  fails), and \<open>um\<close> for \<^verbatim>\<open>json.Unmarshal\<close> into a \<^verbatim>\<open>HostResponse\<close> (\<open>None\<close> when
  decoding fails).
\<close>

type_synonym time_parser = "string \<Rightarrow> int option"
type_synonym unmarshal = "string \<Rightarrow> HostResponse option"

section \<open>The metric registry\<close>

text \<open>
  The five gauge vectors of \<^verbatim>\<open>metrics.go\<close> are maps from a tuple of label values to
  the gauge's value; the histogram is the list of its observations, the two counters
  are numbers. Gauge values are whole numbers in this program, so they are modelled as
  \<^typ>\<open>int\<close>. In the host exporter the values converted to \<^verbatim>\<open>float64\<close> are 0, 1, the
  epoch seconds of an RFC 3339 instant and the length of a slice, all far below
  \<open>2 ^ 53\<close>, where the conversion changes nothing; the job-template exporter converts
  host counts taken from the JSON, and there the conversion is part of the model.
\<close>

datatype family = hostInfo | hostStatus | hostTimestamps | hostGroupMembership | groupInfo

type_synonym labels = "string list"
type_synonym gaugevec = "labels \<rightharpoonup> int"

record registry =
  gauge :: "family \<Rightarrow> gaugevec"
  scrapeDuration :: "int list"
  scrapeErrors :: nat
  hostsProcessed :: nat

text \<open>
  One call \<^verbatim>\<open>vec.WithLabelValues(ls...).Set(v)\<close> is an observation; the functions of
  the transformer are modelled by the observations they write, in order, and
  \<open>SetGauge\<close> is what one observation does to the registry.
\<close>

type_synonym observation = "family \<times> labels \<times> int"

fun SetGauge :: "registry \<Rightarrow> observation \<Rightarrow> registry" where
  "SetGauge reg (f, ls, v) = reg\<lparr>gauge := (gauge reg)(f := (gauge reg f)(ls \<mapsto> v))\<rparr>"

definition SetGauges :: "registry \<Rightarrow> observation list \<Rightarrow> registry" where
  "SetGauges reg obs = foldl SetGauge reg obs"

definition Reset :: "family \<Rightarrow> registry \<Rightarrow> registry" where
  "Reset f reg = reg\<lparr>gauge := (gauge reg)(f := Map.empty)\<rparr>"

definition ResetAllMetrics :: "registry \<Rightarrow> registry" where
  "ResetAllMetrics reg =
     Reset groupInfo (Reset hostGroupMembership (Reset hostTimestamps
       (Reset hostStatus (Reset hostInfo reg))))"

definition IncrementHostsProcessed :: "nat \<Rightarrow> registry \<Rightarrow> registry" where
  "IncrementHostsProcessed count reg = reg\<lparr>hostsProcessed := hostsProcessed reg + count\<rparr>"

definition RecordScrapeError :: "registry \<Rightarrow> registry" where
  "RecordScrapeError reg = reg\<lparr>scrapeErrors := scrapeErrors reg + 1\<rparr>"

definition Observe :: "int \<Rightarrow> registry \<Rightarrow> registry" where
  "Observe d reg = reg\<lparr>scrapeDuration := scrapeDuration reg @ [d]\<rparr>"

section \<open>Errors\<close>

datatype error =
    TimeParseError string
  | CreateRequestError string
  | RequestFailedError string
  | APIStatusError int string string
  | ReadBodyError string
  | HTMLResponseError string
  | FetchError string error
  | JSONError string
  | ConfigError string

section \<open>The transformer (\<^verbatim>\<open>processHosts\<close> and its helpers)\<close>

definition boolToFloat :: "bool \<Rightarrow> int" where
  "boolToFloat b = (if b then 1 else 0)"

definition boolToString :: "bool \<Rightarrow> string" where
  "boolToString b = (if b then ''true'' else ''false'')"

text \<open>
  Each helper returns the observations it wrote and the error it returned
  (\<open>None\<close> for Go's \<^verbatim>\<open>nil\<close>).
\<close>

type_synonym emitted = "observation list \<times> error option"

definition setTimestampMetric :: "time_parser \<Rightarrow> string \<Rightarrow> string \<Rightarrow> string \<Rightarrow> string \<Rightarrow> emitted" where
  "setTimestampMetric tp timestampStr id' name event =
     (case tp timestampStr of
        None \<Rightarrow> ([], Some (TimeParseError timestampStr))
      | Some unix \<Rightarrow> ([(hostTimestamps, [id', name, event], unix)], None))"

definition processHostStatus :: "Host \<Rightarrow> string \<Rightarrow> emitted" where
  "processHostStatus host idStr =
     (let activeFailures = boolToFloat (h_HasActiveFailures host);
          inventorySources = boolToFloat (h_HasInventorySources host)
      in if length (grps_Results (sf_Groups (h_SummaryFields host))) = 0
         then ([(hostStatus, [idStr, h_Name host, ''active_failures'', ''none''], activeFailures),
                (hostStatus, [idStr, h_Name host, ''inventory_sources'', ''none''], inventorySources)],
               None)
         else (concat (map (\<lambda>group.
                  [(hostStatus, [idStr, h_Name host, ''active_failures'', grp_Name group], activeFailures),
                   (hostStatus, [idStr, h_Name host, ''inventory_sources'', grp_Name group], inventorySources)])
                (grps_Results (sf_Groups (h_SummaryFields host)))),
               None))"

definition processHostTimestamps :: "time_parser \<Rightarrow> Host \<Rightarrow> string \<Rightarrow> emitted" where
  "processHostTimestamps tp host idStr =
     (case setTimestampMetric tp (h_Created host) idStr (h_Name host) ''created'' of
        (w1, Some err) \<Rightarrow> (w1, Some err)
      | (w1, None) \<Rightarrow>
     (case setTimestampMetric tp (h_Modified host) idStr (h_Name host) ''modified'' of
        (w2, Some err) \<Rightarrow> (w1 @ w2, Some err)
      | (w2, None) \<Rightarrow>
     (case h_AnsibleFactsModified host of
        None \<Rightarrow> (w1 @ w2, None)
      | Some facts \<Rightarrow>
     (case setTimestampMetric tp facts idStr (h_Name host) ''ansible_facts_modified'' of
        (w3, Some err) \<Rightarrow> (w1 @ w2 @ w3, Some err)
      | (w3, None) \<Rightarrow> (w1 @ w2 @ w3, None)))))"

definition processHostGroups :: "Host \<Rightarrow> string \<Rightarrow> string \<Rightarrow> emitted" where
  "processHostGroups host idStr invIDStr =
     (concat (map (\<lambda>group.
        (let groupIDStr = Itoa (grp_ID group)
         in [(hostGroupMembership, [idStr, h_Name host, groupIDStr, grp_Name group], 1),
             (groupInfo, [groupIDStr, grp_Name group, invIDStr], 1)]))
        (grps_Results (sf_Groups (h_SummaryFields host)))),
      None)"

definition processHost :: "time_parser \<Rightarrow> Host \<Rightarrow> emitted" where
  "processHost tp host =
     (let idStr = Itoa (h_ID host);
          invIDStr = Itoa (inv_ID (sf_Inventory (h_SummaryFields host)));
          enabledStr = boolToString (h_Enabled host);
          w0 = [(hostInfo,
                 [idStr, h_Name host, invIDStr, inv_Name (sf_Inventory (h_SummaryFields host)),
                  enabledStr, h_InstanceID host], 1)]
      in case processHostStatus host idStr of
           (w1, Some err) \<Rightarrow> (w0 @ w1, Some err)
         | (w1, None) \<Rightarrow>
        (case processHostTimestamps tp host idStr of
           (w2, Some err) \<Rightarrow> (w0 @ w1 @ w2, Some err)
         | (w2, None) \<Rightarrow>
        (case processHostGroups host idStr invIDStr of
           (w3, Some err) \<Rightarrow> (w0 @ w1 @ w2 @ w3, Some err)
         | (w3, None) \<Rightarrow> (w0 @ w1 @ w2 @ w3, None))))"

text \<open>
  \<^verbatim>\<open>processHosts\<close>: an empty slice returns at once; otherwise every host is processed
  (an error is logged and the loop goes on), and the counter is raised by the length
  of the slice. Log lines are not part of the model.
\<close>

definition processHosts :: "time_parser \<Rightarrow> Host list \<Rightarrow> registry \<Rightarrow> registry" where
  "processHosts tp hosts reg =
     (let hostCount = length hosts
      in if hostCount = 0 then reg
         else IncrementHostsProcessed hostCount
                (foldl (\<lambda>r host. SetGauges r (fst (processHost tp host))) reg hosts))"

section \<open>The fetch client and the pagination loop\<close>

text \<open>
  \<^verbatim>\<open>buildURL\<close>: a full URL is returned as it is, the empty string and a bare slash
  give the empty string (no more pages), anything else is put behind the configured
  scheme and host.
\<close>

definition buildURL :: "AWXConfig \<Rightarrow> string \<Rightarrow> string" where
  "buildURL config pathOrURL =
     (if prefix ''http://'' pathOrURL \<or> prefix ''https://'' pathOrURL then pathOrURL
      else if pathOrURL = ''/'' \<or> pathOrURL = '''' then ''''
      else if prefix ''/'' pathOrURL
        then (if cfg_UseHTTP config then ''http'' else ''https'') @ ''://'' @ cfg_Host config @ pathOrURL
      else (let pathOrURL' = (if \<not> prefix ''/'' pathOrURL then ''/'' @ pathOrURL else pathOrURL)
            in (if cfg_UseHTTP config then ''http'' else ''https'') @ ''://'' @ cfg_Host config @ pathOrURL'))"

text \<open>
  The world a scrape talks to: the \<open>n\<close>-th request of a scrape, sent to a URL, either
  cannot be built, fails in transport, or is answered with a status code, a status
  line and a body whose reading may fail part-way.
\<close>

record http_response =
  StatusCode :: int
  Status :: string
  Body :: string
  ReadFailed :: bool

datatype http_outcome = RequestInvalid | DoFailed | Responded http_response

type_synonym server = "nat \<Rightarrow> string \<Rightarrow> http_outcome"

definition makeAWXRequest :: "server \<Rightarrow> nat \<Rightarrow> AWXConfig \<Rightarrow> string \<Rightarrow> error + string" where
  "makeAWXRequest srv n config urlStr =
     (case srv n urlStr of
        RequestInvalid \<Rightarrow> Inl (CreateRequestError urlStr)
      | DoFailed \<Rightarrow> Inl (RequestFailedError urlStr)
      | Responded resp \<Rightarrow>
          if StatusCode resp \<noteq> 200
          then Inl (APIStatusError (StatusCode resp) (Status resp) (Body resp))
          else if ReadFailed resp then Inl (ReadBodyError urlStr)
          else if length (Body resp) > 0 \<and> Contains (Body resp) ''<html''
          then Inl (HTMLResponseError urlStr)
          else Inr (Body resp))"

text \<open>
  The loop of \<^verbatim>\<open>fetchAndUpdateMetrics\<close>. Nothing bounds the number of pages, so the
  model takes fuel and \<open>None\<close> means that the fuel ran out. The result carries the
  registry, the URLs handed to \<^verbatim>\<open>makeAWXRequest\<close> so far (the calls of the fetch
  operation, whether or not a request could be built and sent) and the
  error returned. The variables \<^verbatim>\<open>pageCount\<close> and \<^verbatim>\<open>totalHosts\<close> only feed log lines
  and are left out; the number of requests made so far tells the server which request
  it is answering.
\<close>

fun fetchLoop ::
  "nat \<Rightarrow> time_parser \<Rightarrow> unmarshal \<Rightarrow> server \<Rightarrow> AWXConfig \<Rightarrow> string \<Rightarrow> string list \<Rightarrow> registry
     \<Rightarrow> (registry \<times> string list \<times> error option) option" where
  "fetchLoop 0 tp um srv config nextURL reqs reg = None"
| "fetchLoop (Suc fuel) tp um srv config nextURL reqs reg =
     (if nextURL = '''' then Some (reg, reqs, None)
      else case makeAWXRequest srv (length reqs) config nextURL of
             Inl err \<Rightarrow> Some (RecordScrapeError reg, reqs @ [nextURL], Some (FetchError nextURL err))
           | Inr resp \<Rightarrow>
               (case um resp of
                  None \<Rightarrow> Some (RecordScrapeError reg, reqs @ [nextURL], Some (JSONError nextURL))
                | Some hostResponse \<Rightarrow>
                    fetchLoop fuel tp um srv config (buildURL config (hr_Next hostResponse))
                      (reqs @ [nextURL]) (processHosts tp (hr_Results hostResponse) reg)))"

text \<open>
  \<^verbatim>\<open>fetchAndUpdateMetrics\<close>: reset, walk the pages, and (deferred) observe the elapsed
  time \<open>elapsed\<close>, which the clock of the world decides.
\<close>

definition fetchAndUpdateMetrics ::
  "nat \<Rightarrow> time_parser \<Rightarrow> unmarshal \<Rightarrow> server \<Rightarrow> int \<Rightarrow> AWXConfig \<Rightarrow> registry
     \<Rightarrow> (registry \<times> string list \<times> error option) option" where
  "fetchAndUpdateMetrics fuel tp um srv elapsed config reg =
     (case fetchLoop fuel tp um srv config (buildURL config ''/api/v2/hosts/?format=json'') []
             (ResetAllMetrics reg) of
        None \<Rightarrow> None
      | Some (reg', reqs, err) \<Rightarrow> Some (Observe elapsed reg', reqs, err))"

text \<open>
  \<^verbatim>\<open>updateMetrics\<close>: one collection at once, then one per tick of the ticker until the
  context is cancelled. A collection that returns an error records a scrape error.
  Each collection meets its own world (server and elapsed time).
\<close>

definition collect ::
  "nat \<Rightarrow> time_parser \<Rightarrow> unmarshal \<Rightarrow> server \<times> int \<Rightarrow> AWXConfig \<Rightarrow> registry \<Rightarrow> registry option" where
  "collect fuel tp um world config reg =
     (case fetchAndUpdateMetrics fuel tp um (fst world) (snd world) config reg of
        None \<Rightarrow> None
      | Some (reg', reqs, None) \<Rightarrow> Some reg'
      | Some (reg', reqs, Some err) \<Rightarrow> Some (RecordScrapeError reg'))"

fun tickerLoop ::
  "nat \<Rightarrow> time_parser \<Rightarrow> unmarshal \<Rightarrow> (server \<times> int) list \<Rightarrow> AWXConfig \<Rightarrow> registry \<Rightarrow> registry option" where
  "tickerLoop fuel tp um [] config reg = Some reg"
| "tickerLoop fuel tp um (world # ticks) config reg =
     (case collect fuel tp um world config reg of
        None \<Rightarrow> None
      | Some reg' \<Rightarrow> tickerLoop fuel tp um ticks config reg')"

definition updateMetrics ::
  "nat \<Rightarrow> time_parser \<Rightarrow> unmarshal \<Rightarrow> server \<times> int \<Rightarrow> (server \<times> int) list \<Rightarrow> AWXConfig \<Rightarrow> registry
     \<Rightarrow> registry option" where
  "updateMetrics fuel tp um initial ticks config reg =
     (case collect fuel tp um initial config reg of
        None \<Rightarrow> None
      | Some reg' \<Rightarrow> tickerLoop fuel tp um ticks config reg')"

section \<open>Configuration\<close>

text \<open>\<^verbatim>\<open>config.go\<close>, the configuration of the host exporter.\<close>

definition defaultScrapeInterval :: int where
  "defaultScrapeInterval = wrap64 (5 * Minute)"

definition defaultPort :: string where
  "defaultPort = ''8080''"

definition getEnvOrDefault :: "environ \<Rightarrow> string \<Rightarrow> string \<Rightarrow> string" where
  "getEnvOrDefault env key defaultValue =
     (let value = Getenv env key in if value \<noteq> '''' then value else defaultValue)"

definition getEnvAsBool :: "environ \<Rightarrow> string \<Rightarrow> bool \<Rightarrow> bool" where
  "getEnvAsBool env key defaultValue =
     (let value = Getenv env key in if value \<noteq> '''' then value = ''true'' else defaultValue)"

definition validateConfig :: "AWXConfig \<Rightarrow> error option" where
  "validateConfig config =
     (if cfg_Host config = '''' then Some (ConfigError ''AWX_HOST environment variable is required'')
      else if cfg_User config = '''' then Some (ConfigError ''AWX_USER environment variable is required'')
      else if cfg_Password config = ''''
        then Some (ConfigError ''AWX_PASSWORD environment variable is required'')
      else None)"

text \<open>\<^verbatim>\<open>log.Fatalf\<close> ends the process: \<open>Inl\<close> is that exit.\<close>

definition loadConfig :: "environ \<Rightarrow> error + AWXConfig" where
  "loadConfig env =
     (let config = \<lparr>cfg_Host = getEnvOrDefault env ''AWX_HOST'' '''',
                     cfg_User = getEnvOrDefault env ''AWX_USER'' '''',
                     cfg_Password = getEnvOrDefault env ''AWX_PASSWORD'' '''',
                     cfg_UseHTTP = getEnvAsBool env ''HTTP'' False,
                     cfg_TLSInsecure = getEnvAsBool env ''TLS_INSECURE'' False\<rparr>
      in case validateConfig config of Some err \<Rightarrow> Inl err | None \<Rightarrow> Inr config)"

definition getScrapeInterval :: "environ \<Rightarrow> int" where
  "getScrapeInterval env =
     (let value = Getenv env ''SCRAPE_INTERVAL''
      in if value \<noteq> ''''
         then (case Atoi value of
                 Some minutes \<Rightarrow>
                   if minutes > 0 then wrap64 (minutes * Minute) else defaultScrapeInterval
               | None \<Rightarrow> defaultScrapeInterval)
         else defaultScrapeInterval)"

definition getPort :: "environ \<Rightarrow> string" where
  "getPort env = getEnvOrDefault env ''PORT'' defaultPort"

text \<open>
  The start of \<^verbatim>\<open>main\<close> in \<^verbatim>\<open>main.go\<close>: the process either exits with a
  configuration error or goes on with a configuration, an interval and a port.
\<close>

datatype startup = Exited error | Started AWXConfig int string

definition main_startup :: "environ \<Rightarrow> startup" where
  "main_startup env =
     (case loadConfig env of
        Inl err \<Rightarrow> Exited err
      | Inr config \<Rightarrow> Started config (getScrapeInterval env) (getPort env))"

text \<open>
  The job-template exporter has its own \<^verbatim>\<open>loadConfig\<close> and \<^verbatim>\<open>main\<close> (suffix \<open>_jt\<close>
  here). \<open>pd\<close> stands for \<^verbatim>\<open>time.ParseDuration\<close>.
\<close>

definition getEnv :: "environ \<Rightarrow> string \<Rightarrow> string \<Rightarrow> string" where
  "getEnv env key fallback = (case env key of Some value \<Rightarrow> value | None \<Rightarrow> fallback)"

definition loadConfig_jt :: "(string \<Rightarrow> int option) \<Rightarrow> environ \<Rightarrow> error + Config" where
  "loadConfig_jt pd env =
     (let username = Getenv env ''AWX_USERNAME'';
          password = Getenv env ''AWX_PASSWORD''
      in if username = '''' \<or> password = ''''
         then Inl (ConfigError ''AWX_USERNAME and AWX_PASSWORD must be set'')
         else (let scrapeIntervalStr = getEnv env ''SCRAPE_INTERVAL'' ''24h''
               in case pd scrapeIntervalStr of
                    None \<Rightarrow> Inl (ConfigError ''invalid SCRAPE_INTERVAL duration'')
                  | Some scrapeInterval \<Rightarrow>
                      Inr \<lparr>AWXURL = getEnv env ''AWX_URL'' ''https://awx'',
                           AWXUsername = username,
                           AWXPassword = password,
                           ScrapeInterval = scrapeInterval,
                           ListenPort = '':'' @ getEnv env ''EXPORTER_PORT'' ''8080'',
                           InsecureSkipVerify = (getEnv env ''INSECURE_SKIP_VERIFY'' ''false'' = ''true''),
                           RequestTimeout = wrap64 (30 * Second)\<rparr>))"

datatype startup_jt = Exited_jt error | Started_jt Config

definition main_startup_jt :: "(string \<Rightarrow> int option) \<Rightarrow> environ \<Rightarrow> startup_jt" where
  "main_startup_jt pd env =
     (case loadConfig_jt pd env of Inl err \<Rightarrow> Exited_jt err | Inr appConfig \<Rightarrow> Started_jt appConfig)"

section \<open>The job-template transformer\<close>

text \<open>
  The three gauge vectors of the job-template exporter, and the body of the loop over
  \<^verbatim>\<open>response.Results\<close> in \<^verbatim>\<open>scrapeAWX\<close>. Both label names are given, so the label
  values are the pair (template id, template name).
\<close>

record template_registry =
  jobLastRunTimestamp :: gaugevec
  inventoryFailedHosts :: gaugevec
  inventoryTotalHosts :: gaugevec

definition template_labels :: "JobTemplate \<Rightarrow> labels" where
  "template_labels template = [Itoa (jt_ID template), jt_Name template]"

definition scrapeTemplate :: "time_parser \<Rightarrow> template_registry \<Rightarrow> JobTemplate \<Rightarrow> template_registry" where
  "scrapeTemplate tp reg template =
     (let labels = template_labels template;
          reg1 = (if jt_LastJobRun template \<noteq> ''''
                  then (case tp (jt_LastJobRun template) of
                          Some unix \<Rightarrow>
                            reg\<lparr>jobLastRunTimestamp := (jobLastRunTimestamp reg)(labels \<mapsto> float64 unix)\<rparr>
                        | None \<Rightarrow> reg)
                  else reg);
          failedHosts = ti_HostsWithFailures (tsf_Inventory (jt_SummaryFields template));
          totalHosts = ti_TotalHosts (tsf_Inventory (jt_SummaryFields template));
          reg2 = reg1\<lparr>inventoryFailedHosts :=
                        (inventoryFailedHosts reg1)(labels \<mapsto> float64 failedHosts)\<rparr>
      in reg2\<lparr>inventoryTotalHosts := (inventoryTotalHosts reg2)(labels \<mapsto> float64 totalHosts)\<rparr>)"

definition scrapeResults :: "time_parser \<Rightarrow> JobTemplate list \<Rightarrow> template_registry \<Rightarrow> template_registry" where
  "scrapeResults tp results reg = foldl (scrapeTemplate tp) reg results"

section \<open>Auxiliary notions and example data\<close>

text \<open>The metric label of a host-status observation is the third label value.\<close>

definition metric_of :: "observation \<Rightarrow> string" where
  "metric_of ob = fst (snd ob) ! 2"

definition empty_registry :: registry where
  "empty_registry = \<lparr>gauge = (\<lambda>f. Map.empty), scrapeDuration = [], scrapeErrors = 0, hostsProcessed = 0\<rparr>"

text \<open>A time parser that knows two instants, and three hosts.\<close>

definition tp_ex :: time_parser where
  "tp_ex s = (if s = ''2024-01-01T00:00:00Z'' then Some 1704067200
              else if s = ''2024-01-02T00:00:00Z'' then Some 1704153600 else None)"

definition host_web1 :: Host where
  "host_web1 = \<lparr>h_ID = 7, h_Created = ''2024-01-01T00:00:00Z'', h_Modified = ''2024-01-02T00:00:00Z'',
     h_Name = ''web1'', h_Inventory = 2, h_Enabled = True, h_InstanceID = ''i-1'',
     h_HasActiveFailures = True, h_HasInventorySources = False, h_AnsibleFactsModified = None,
     h_SummaryFields = \<lparr>sf_Inventory = \<lparr>inv_ID = 2, inv_Name = ''prod''\<rparr>,
        sf_Groups = \<lparr>grps_Count = 2,
          grps_Results = [\<lparr>grp_ID = 3, grp_Name = ''db''\<rparr>, \<lparr>grp_ID = 4, grp_Name = ''web''\<rparr>]\<rparr>\<rparr>\<rparr>"

definition host_stale :: Host where
  "host_stale = \<lparr>h_ID = 8, h_Created = ''2024-01-01T00:00:00Z'', h_Modified = ''yesterday'',
     h_Name = ''db1'', h_Inventory = 2, h_Enabled = False, h_InstanceID = ''i-2'',
     h_HasActiveFailures = False, h_HasInventorySources = True,
     h_AnsibleFactsModified = Some ''2024-01-02T00:00:00Z'',
     h_SummaryFields = \<lparr>sf_Inventory = \<lparr>inv_ID = 2, inv_Name = ''prod''\<rparr>,
        sf_Groups = \<lparr>grps_Count = 1, grps_Results = [\<lparr>grp_ID = 3, grp_Name = ''db''\<rparr>]\<rparr>\<rparr>\<rparr>"

definition host_lonely :: Host where
  "host_lonely = \<lparr>h_ID = 9, h_Created = ''2024-01-01T00:00:00Z'', h_Modified = ''2024-01-01T00:00:00Z'',
     h_Name = ''lonely'', h_Inventory = 2, h_Enabled = True, h_InstanceID = '''',
     h_HasActiveFailures = False, h_HasInventorySources = False, h_AnsibleFactsModified = None,
     h_SummaryFields = \<lparr>sf_Inventory = \<lparr>inv_ID = 2, inv_Name = ''prod''\<rparr>,
        sf_Groups = \<lparr>grps_Count = 0, grps_Results = []\<rparr>\<rparr>\<rparr>"

text \<open>A configuration, and servers that answer every request in the same way.\<close>

definition config_ex :: AWXConfig where
  "config_ex = \<lparr>cfg_Host = ''awx.example.com'', cfg_User = ''exporter'', cfg_Password = ''secret'',
     cfg_UseHTTP = False, cfg_TLSInsecure = False\<rparr>"

definition srv_created :: server where
  "srv_created n url = Responded \<lparr>StatusCode = 201, Status = ''201 Created'',
     Body = replicate 300 (CHR ''x''), ReadFailed = False\<rparr>"

definition srv_login :: server where
  "srv_login n url = Responded \<lparr>StatusCode = 200, Status = ''200 OK'',
     Body = ''<!DOCTYPE html><html><body>Login</body></html>'', ReadFailed = False\<rparr>"

definition srv_unavailable :: server where
  "srv_unavailable n url = Responded \<lparr>StatusCode = 503, Status = ''503 Service Unavailable'',
     Body = ''try later'', ReadFailed = False\<rparr>"

definition srv_cut :: server where
  "srv_cut n url = Responded \<lparr>StatusCode = 200, Status = ''200 OK'',
     Body = ''{'', ReadFailed = True\<rparr>"

definition srv_plain :: server where
  "srv_plain n url = Responded \<lparr>StatusCode = 200, Status = ''200 OK'',
     Body = ''{}'', ReadFailed = False\<rparr>"

text \<open>
  The timestamp observation of a job template, if it has one: the last run must be
  present and must parse.
\<close>

definition template_timestamp :: "time_parser \<Rightarrow> JobTemplate \<Rightarrow> (labels \<times> int) option" where
  "template_timestamp tp template =
     (if jt_LastJobRun template = '''' then None
      else map_option (\<lambda>unix. (template_labels template, float64 unix)) (tp (jt_LastJobRun template)))"

definition empty_template_registry :: template_registry where
  "empty_template_registry =
     \<lparr>jobLastRunTimestamp = Map.empty, inventoryFailedHosts = Map.empty, inventoryTotalHosts = Map.empty\<rparr>"

definition tmpl_deploy :: JobTemplate where
  "tmpl_deploy = \<lparr>jt_ID = 5, jt_Name = ''deploy'', jt_LastJobRun = ''2024-01-01T00:00:00Z'',
     jt_SummaryFields = \<lparr>tsf_Inventory = \<lparr>ti_HostsWithFailures = 1, ti_TotalHosts = 10\<rparr>\<rparr>\<rparr>"

definition tmpl_never :: JobTemplate where
  "tmpl_never = \<lparr>jt_ID = 6, jt_Name = ''never-run'', jt_LastJobRun = '''',
     jt_SummaryFields = \<lparr>tsf_Inventory = \<lparr>ti_HostsWithFailures = 0, ti_TotalHosts = 3\<rparr>\<rparr>\<rparr>"

definition tmpl_garbled :: JobTemplate where
  "tmpl_garbled = \<lparr>jt_ID = 4, jt_Name = ''patch'', jt_LastJobRun = ''soon'',
     jt_SummaryFields = \<lparr>tsf_Inventory = \<lparr>ti_HostsWithFailures = 2, ti_TotalHosts = 2\<rparr>\<rparr>\<rparr>"

definition tmpl_huge :: JobTemplate where
  "tmpl_huge = \<lparr>jt_ID = 3, jt_Name = ''fleet'', jt_LastJobRun = ''2024-01-02T00:00:00Z'',
     jt_SummaryFields = \<lparr>tsf_Inventory =
       \<lparr>ti_HostsWithFailures = 9007199254740992, ti_TotalHosts = 9007199254740993\<rparr>\<rparr>\<rparr>"

text \<open>Two environments whose scrape interval is not a number, and a duration parser.\<close>

definition env_soon :: environ where
  "env_soon = map_of [(''AWX_HOST'', ''awx.example.com''), (''AWX_USER'', ''exporter''),
     (''AWX_PASSWORD'', ''secret''), (''SCRAPE_INTERVAL'', ''soon'')]"

definition env_jt_soon :: environ where
  "env_jt_soon = map_of [(''AWX_USERNAME'', ''exporter''), (''AWX_PASSWORD'', ''secret''),
     (''SCRAPE_INTERVAL'', ''soon'')]"

definition pd_ex :: "string \<Rightarrow> int option" where
  "pd_ex s = (if s = ''24h'' then Some 86400000000000
              else if s = ''5m'' then Some 300000000000 else None)"

text \<open>
  The pages a walk decodes before it stops: the traversal of \<open>fetchLoop\<close>, keeping
  only the decoded pages. \<open>processPages\<close> hands pages to \<^verbatim>\<open>processHosts\<close> one after
  the other, and \<open>writes\<close> selects the observations of one gauge vector.
\<close>

fun decodedPages :: "nat \<Rightarrow> unmarshal \<Rightarrow> server \<Rightarrow> AWXConfig \<Rightarrow> string \<Rightarrow> nat \<Rightarrow> HostResponse list" where
  "decodedPages 0 um srv config url n = []"
| "decodedPages (Suc fuel) um srv config url n =
     (if url = '''' then []
      else case makeAWXRequest srv n config url of
             Inl err \<Rightarrow> []
           | Inr resp \<Rightarrow>
               (case um resp of
                  None \<Rightarrow> []
                | Some hostResponse \<Rightarrow>
                    hostResponse # decodedPages fuel um srv config (buildURL config (hr_Next hostResponse)) (Suc n)))"

definition processPages :: "time_parser \<Rightarrow> registry \<Rightarrow> HostResponse list \<Rightarrow> registry" where
  "processPages tp reg pages = foldl (\<lambda>r page. processHosts tp (hr_Results page) r) reg pages"

definition writes :: "family \<Rightarrow> observation list \<Rightarrow> (labels \<times> int) list" where
  "writes fam obs = map snd (filter (\<lambda>ob. fst ob = fam) obs)"

text \<open>
  Pages, a decoder that knows three bodies, and three servers: one page; two pages; a
  first page followed by a body that does not decode.
\<close>

definition page_only :: HostResponse where
  "page_only = \<lparr>hr_Count = 1, hr_Next = '''', hr_Previous = '''', hr_Results = [host_lonely]\<rparr>"

definition page_first :: HostResponse where
  "page_first = \<lparr>hr_Count = 2, hr_Next = ''/api/v2/hosts/?format=json&page=2'', hr_Previous = '''',
     hr_Results = [host_web1]\<rparr>"

definition page_second :: HostResponse where
  "page_second = \<lparr>hr_Count = 2, hr_Next = ''/'', hr_Previous = ''/api/v2/hosts/?format=json'',
     hr_Results = [host_stale]\<rparr>"

definition um_ex :: unmarshal where
  "um_ex body = (if body = ''only'' then Some page_only
                 else if body = ''first'' then Some page_first
                 else if body = ''second'' then Some page_second else None)"

definition ok_response :: "string \<Rightarrow> http_outcome" where
  "ok_response body = Responded \<lparr>StatusCode = 200, Status = ''200 OK'', Body = body, ReadFailed = False\<rparr>"

definition not_found :: http_outcome where
  "not_found = Responded \<lparr>StatusCode = 404, Status = ''404 Not Found'', Body = '''', ReadFailed = False\<rparr>"

definition srv_one :: server where
  "srv_one n url = (if url = ''https://awx.example.com/api/v2/hosts/?format=json'' then ok_response ''only''
                    else not_found)"

definition srv_two :: server where
  "srv_two n url =
     (if url = ''https://awx.example.com/api/v2/hosts/?format=json'' then ok_response ''first''
      else if url = ''https://awx.example.com/api/v2/hosts/?format=json&page=2'' then ok_response ''second''
      else not_found)"

definition srv_break :: server where
  "srv_break n url =
     (if url = ''https://awx.example.com/api/v2/hosts/?format=json'' then ok_response ''first''
      else if url = ''https://awx.example.com/api/v2/hosts/?format=json&page=2'' then ok_response ''{trunc''
      else not_found)"

text \<open>A registry as an earlier scrape may have left it.\<close>

definition reg_busy :: registry where
  "reg_busy = \<lparr>gauge = (\<lambda>f. Map.empty)(hostInfo := [[''1'', ''old'', ''2'', ''prod'', ''true'', ''''] \<mapsto> 1]),
                scrapeDuration = [1], scrapeErrors = 4, hostsProcessed = 10\<rparr>"

section \<open>Facts about the registry operations\<close>

lemma utoa_digit: "n < 10 \<Longrightarrow> utoa n = [digit_char n]"
  by (simp add: utoa.simps)

lemma SetGauge_frame [simp]:
  "scrapeDuration (SetGauge reg ob) = scrapeDuration reg"
  "scrapeErrors (SetGauge reg ob) = scrapeErrors reg"
  "hostsProcessed (SetGauge reg ob) = hostsProcessed reg"
  by (cases ob; simp)+

lemma SetGauges_frame [simp]:
  "scrapeDuration (SetGauges reg obs) = scrapeDuration reg"
  "scrapeErrors (SetGauges reg obs) = scrapeErrors reg"
  "hostsProcessed (SetGauges reg obs) = hostsProcessed reg"
  unfolding SetGauges_def by (induction obs arbitrary: reg; simp)+

lemma foldl_hosts_frame:
  "scrapeDuration (foldl (\<lambda>r host. SetGauges r (fst (processHost tp host))) reg hosts) = scrapeDuration reg"
  "scrapeErrors (foldl (\<lambda>r host. SetGauges r (fst (processHost tp host))) reg hosts) = scrapeErrors reg"
  "hostsProcessed (foldl (\<lambda>r host. SetGauges r (fst (processHost tp host))) reg hosts) = hostsProcessed reg"
  by (induction hosts arbitrary: reg; simp)+

lemma processHosts_frame:
  "scrapeDuration (processHosts tp hosts reg) = scrapeDuration reg"
  "scrapeErrors (processHosts tp hosts reg) = scrapeErrors reg"
  "hostsProcessed (processHosts tp hosts reg) = hostsProcessed reg + length hosts"
  by (simp_all add: processHosts_def Let_def IncrementHostsProcessed_def foldl_hosts_frame)

section \<open>Observations written for one host\<close>

lemma filter_concat_pairs_fst:
  assumes "\<And>g. P (a g)" and "\<And>g. \<not> P (b g)"
  shows "filter P (concat (map (\<lambda>g. [a g, b g]) gs)) = map a gs"
  using assms by (induction gs) simp_all

lemma filter_concat_pairs_snd:
  assumes "\<And>g. \<not> P (a g)" and "\<And>g. P (b g)"
  shows "filter P (concat (map (\<lambda>g. [a g, b g]) gs)) = map b gs"
  using assms by (induction gs) simp_all

lemma length_concat_pairs: "length (concat (map (\<lambda>g. [a g, b g]) gs)) = 2 * length gs"
  by (induction gs) simp_all

lemma processHostStatus_none:
  "grps_Results (sf_Groups (h_SummaryFields host)) = [] \<Longrightarrow>
   processHostStatus host idStr =
     ([(hostStatus, [idStr, h_Name host, ''active_failures'', ''none''], boolToFloat (h_HasActiveFailures host)),
       (hostStatus, [idStr, h_Name host, ''inventory_sources'', ''none''], boolToFloat (h_HasInventorySources host))],
      None)"
  by (simp add: processHostStatus_def)

lemma processHostStatus_groups:
  assumes "grps_Results (sf_Groups (h_SummaryFields host)) \<noteq> []"
  shows "length (fst (processHostStatus host idStr)) = 2 * length (grps_Results (sf_Groups (h_SummaryFields host)))"
    and "filter (\<lambda>ob. metric_of ob = ''active_failures'') (fst (processHostStatus host idStr)) =
          map (\<lambda>group. (hostStatus, [idStr, h_Name host, ''active_failures'', grp_Name group],
                 boolToFloat (h_HasActiveFailures host)))
            (grps_Results (sf_Groups (h_SummaryFields host)))"
    and "filter (\<lambda>ob. metric_of ob = ''inventory_sources'') (fst (processHostStatus host idStr)) =
          map (\<lambda>group. (hostStatus, [idStr, h_Name host, ''inventory_sources'', grp_Name group],
                 boolToFloat (h_HasInventorySources host)))
            (grps_Results (sf_Groups (h_SummaryFields host)))"
  using assms
    apply (simp_all add: processHostStatus_def Let_def length_concat_pairs)
   apply (rule filter_concat_pairs_fst; simp add: metric_of_def)
  apply (rule filter_concat_pairs_snd; simp add: metric_of_def)
  done

lemma processHostGroups_obs:
  "length (fst (processHostGroups host idStr invIDStr)) = 2 * length (grps_Results (sf_Groups (h_SummaryFields host)))"
  "filter (\<lambda>ob. fst ob = hostGroupMembership) (fst (processHostGroups host idStr invIDStr)) =
     map (\<lambda>group. (hostGroupMembership, [idStr, h_Name host, Itoa (grp_ID group), grp_Name group], 1))
       (grps_Results (sf_Groups (h_SummaryFields host)))"
  "filter (\<lambda>ob. fst ob = groupInfo) (fst (processHostGroups host idStr invIDStr)) =
     map (\<lambda>group. (groupInfo, [Itoa (grp_ID group), grp_Name group, invIDStr], 1))
       (grps_Results (sf_Groups (h_SummaryFields host)))"
    apply (simp_all add: processHostGroups_def Let_def length_concat_pairs)
   apply (rule filter_concat_pairs_fst; simp)
  apply (rule filter_concat_pairs_snd; simp)
  done

text \<open>
  \<^verbatim>\<open>processHost\<close> calls the helpers with the decimal host id and inventory id. When
  \<^verbatim>\<open>processHostTimestamps\<close> returns no error, everything is written: the info
  observation, then the status, timestamp and group observations.
\<close>

lemma processHost_all_written:
  assumes "snd (processHostTimestamps tp host (Itoa (h_ID host))) = None"
  shows "processHost tp host =
     ((hostInfo, [Itoa (h_ID host), h_Name host, Itoa (inv_ID (sf_Inventory (h_SummaryFields host))),
         inv_Name (sf_Inventory (h_SummaryFields host)), boolToString (h_Enabled host), h_InstanceID host], 1)
       # fst (processHostStatus host (Itoa (h_ID host)))
       @ fst (processHostTimestamps tp host (Itoa (h_ID host)))
       @ fst (processHostGroups host (Itoa (h_ID host)) (Itoa (inv_ID (sf_Inventory (h_SummaryFields host))))),
      None)"
proof -
  obtain w where w: "processHostTimestamps tp host (Itoa (h_ID host)) = (w, None)"
    using assms by (cases "processHostTimestamps tp host (Itoa (h_ID host))") simp
  show ?thesis
    by (simp add: processHost_def Let_def w processHostStatus_def processHostGroups_def)
qed

text \<open>
  What the two helpers write, for every host and every id string. A host without
  groups has exactly two host-status observations written by \<^verbatim>\<open>processHostStatus\<close>,
  both with the group label "none". A host with \<open>N > 0\<close> groups has exactly \<open>2N\<close> of
  them: one "active_failures" and one "inventory_sources" observation per group, in
  the order of the groups, each with the same value for every group.
  \<^verbatim>\<open>processHostGroups\<close> writes \<open>2N\<close> observations: \<open>N\<close> membership observations keyed
  by (host id, host name, group id, group name) and \<open>N\<close> group-info observations keyed
  by (group id, group name, inventory id).
\<close>

lemma helper_observation_counts:
  "(grps_Results (sf_Groups (h_SummaryFields host)) = [] \<longrightarrow>
      fst (processHostStatus host idStr) =
        [(hostStatus, [idStr, h_Name host, ''active_failures'', ''none''],
            boolToFloat (h_HasActiveFailures host)),
         (hostStatus, [idStr, h_Name host, ''inventory_sources'', ''none''],
            boolToFloat (h_HasInventorySources host))])
   \<and> (grps_Results (sf_Groups (h_SummaryFields host)) \<noteq> [] \<longrightarrow>
      length (fst (processHostStatus host idStr)) =
        2 * length (grps_Results (sf_Groups (h_SummaryFields host)))
      \<and> filter (\<lambda>ob. metric_of ob = ''active_failures'') (fst (processHostStatus host idStr)) =
          map (\<lambda>group. (hostStatus, [idStr, h_Name host, ''active_failures'', grp_Name group],
                 boolToFloat (h_HasActiveFailures host)))
            (grps_Results (sf_Groups (h_SummaryFields host)))
      \<and> filter (\<lambda>ob. metric_of ob = ''inventory_sources'') (fst (processHostStatus host idStr)) =
          map (\<lambda>group. (hostStatus, [idStr, h_Name host, ''inventory_sources'', grp_Name group],
                 boolToFloat (h_HasInventorySources host)))
            (grps_Results (sf_Groups (h_SummaryFields host))))
   \<and> length (fst (processHostGroups host idStr invIDStr)) =
        2 * length (grps_Results (sf_Groups (h_SummaryFields host)))
   \<and> filter (\<lambda>ob. fst ob = hostGroupMembership) (fst (processHostGroups host idStr invIDStr)) =
       map (\<lambda>group. (hostGroupMembership, [idStr, h_Name host, Itoa (grp_ID group), grp_Name group], 1))
         (grps_Results (sf_Groups (h_SummaryFields host)))
   \<and> filter (\<lambda>ob. fst ob = groupInfo) (fst (processHostGroups host idStr invIDStr)) =
       map (\<lambda>group. (groupInfo, [Itoa (grp_ID group), grp_Name group, invIDStr], 1))
         (grps_Results (sf_Groups (h_SummaryFields host)))"
  using processHostStatus_none [of host idStr] processHostStatus_groups [of host idStr]
    processHostGroups_obs [of host idStr invIDStr]
  by simp

lemma helper_observation_counts_example:
  "fst (processHostStatus host_lonely ''9'') =
     [(hostStatus, [''9'', ''lonely'', ''active_failures'', ''none''], 0),
      (hostStatus, [''9'', ''lonely'', ''inventory_sources'', ''none''], 0)]
   \<and> length (fst (processHostStatus host_web1 ''7'')) = 4
   \<and> filter (\<lambda>ob. metric_of ob = ''active_failures'') (fst (processHostStatus host_web1 ''7'')) =
       [(hostStatus, [''7'', ''web1'', ''active_failures'', ''db''], 1),
        (hostStatus, [''7'', ''web1'', ''active_failures'', ''web''], 1)]
   \<and> filter (\<lambda>ob. metric_of ob = ''inventory_sources'') (fst (processHostStatus host_web1 ''7'')) =
       [(hostStatus, [''7'', ''web1'', ''inventory_sources'', ''db''], 0),
        (hostStatus, [''7'', ''web1'', ''inventory_sources'', ''web''], 0)]
   \<and> length (fst (processHostGroups host_web1 ''7'' ''2'')) = 4
   \<and> filter (\<lambda>ob. fst ob = hostGroupMembership) (fst (processHostGroups host_web1 ''7'' ''2'')) =
       [(hostGroupMembership, [''7'', ''web1'', ''3'', ''db''], 1),
        (hostGroupMembership, [''7'', ''web1'', ''4'', ''web''], 1)]
   \<and> filter (\<lambda>ob. fst ob = groupInfo) (fst (processHostGroups host_web1 ''7'' ''2'')) =
       [(groupInfo, [''3'', ''db'', ''2''], 1), (groupInfo, [''4'', ''web'', ''2''], 1)]"
  using helper_observation_counts [of host_lonely "''9''" "''2''"]
    helper_observation_counts [of host_web1 "''7''" "''2''"]
  by (simp add: host_lonely_def host_web1_def boolToFloat_def Itoa_def utoa_digit digit_char_def)

section \<open>The hosts-processed counter\<close>

text \<open>
  Claim C10. Processing a page adds the length of the page's host list to
  \<^verbatim>\<open>hosts_processed_total\<close>, whatever \<^verbatim>\<open>processHost\<close> returned for the single hosts;
  an empty page leaves the registry as it was.
\<close>

theorem processHosts_counts_attempted:
  "hostsProcessed (processHosts tp hosts reg) = hostsProcessed reg + length hosts
   \<and> processHosts tp [] reg = reg"
  by (simp add: processHosts_frame) (simp add: processHosts_def)

theorem processHosts_counts_attempted_witness:
  "snd (processHost tp_ex host_stale) = Some (TimeParseError ''yesterday'')
   \<and> hostsProcessed (processHosts tp_ex [host_stale, host_web1] empty_registry) = 2
   \<and> processHosts tp_ex [] empty_registry = empty_registry"
  using processHosts_counts_attempted [of tp_ex "[host_stale, host_web1]" empty_registry]
    processHosts_counts_attempted [of tp_ex "[]" empty_registry]
  by (simp add: empty_registry_def processHost_def processHostStatus_def processHostTimestamps_def
      setTimestampMetric_def tp_ex_def host_stale_def Let_def)


section \<open>A host whose timestamp does not parse\<close>

lemma processHost_stale:
  "processHost tp_ex host_stale =
     ([(hostInfo, [''8'', ''db1'', ''2'', ''prod'', ''false'', ''i-2''], 1),
       (hostStatus, [''8'', ''db1'', ''active_failures'', ''db''], 0),
       (hostStatus, [''8'', ''db1'', ''inventory_sources'', ''db''], 1),
       (hostTimestamps, [''8'', ''db1'', ''created''], 1704067200)],
      Some (TimeParseError ''yesterday''))"
  by (simp add: processHost_def processHostStatus_def processHostTimestamps_def
      setTimestampMetric_def tp_ex_def host_stale_def Let_def Itoa_def utoa_digit digit_char_def
      boolToString_def boolToFloat_def)

lemma processHost_lonely:
  "processHost tp_ex host_lonely =
     ([(hostInfo, [''9'', ''lonely'', ''2'', ''prod'', ''true'', ''''], 1),
       (hostStatus, [''9'', ''lonely'', ''active_failures'', ''none''], 0),
       (hostStatus, [''9'', ''lonely'', ''inventory_sources'', ''none''], 0),
       (hostTimestamps, [''9'', ''lonely'', ''created''], 1704067200),
       (hostTimestamps, [''9'', ''lonely'', ''modified''], 1704067200)],
      None)"
  by (simp add: processHost_def processHostStatus_def processHostTimestamps_def processHostGroups_def
      setTimestampMetric_def tp_ex_def host_lonely_def Let_def Itoa_def utoa_digit digit_char_def
      boolToString_def boolToFloat_def)

lemma processHost_web1:
  "processHost tp_ex host_web1 =
     ([(hostInfo, [''7'', ''web1'', ''2'', ''prod'', ''true'', ''i-1''], 1),
       (hostStatus, [''7'', ''web1'', ''active_failures'', ''db''], 1),
       (hostStatus, [''7'', ''web1'', ''inventory_sources'', ''db''], 0),
       (hostStatus, [''7'', ''web1'', ''active_failures'', ''web''], 1),
       (hostStatus, [''7'', ''web1'', ''inventory_sources'', ''web''], 0),
       (hostTimestamps, [''7'', ''web1'', ''created''], 1704067200),
       (hostTimestamps, [''7'', ''web1'', ''modified''], 1704153600),
       (hostGroupMembership, [''7'', ''web1'', ''3'', ''db''], 1),
       (groupInfo, [''3'', ''db'', ''2''], 1),
       (hostGroupMembership, [''7'', ''web1'', ''4'', ''web''], 1),
       (groupInfo, [''4'', ''web'', ''2''], 1)],
      None)"
  by (simp add: processHost_def processHostStatus_def processHostTimestamps_def processHostGroups_def
      setTimestampMetric_def tp_ex_def host_web1_def Let_def Itoa_def utoa_digit digit_char_def
      boolToString_def boolToFloat_def)

text \<open>
  When the "created" timestamp parses and the "modified" one does not,
  \<^verbatim>\<open>processHostTimestamps\<close> returns the error and \<^verbatim>\<open>processHost\<close> returns it in turn,
  before \<^verbatim>\<open>processHostGroups\<close> is called: the host has its info, status and "created"
  observations and nothing else.
\<close>

lemma processHost_modified_unparseable:
  assumes "tp (h_Created host) = Some c" and "tp (h_Modified host) = None"
  shows "processHost tp host =
     ((hostInfo, [Itoa (h_ID host), h_Name host, Itoa (inv_ID (sf_Inventory (h_SummaryFields host))),
         inv_Name (sf_Inventory (h_SummaryFields host)), boolToString (h_Enabled host), h_InstanceID host], 1)
       # fst (processHostStatus host (Itoa (h_ID host)))
       @ [(hostTimestamps, [Itoa (h_ID host), h_Name host, ''created''], c)],
      Some (TimeParseError (h_Modified host)))"
  using assms
  by (simp add: processHost_def processHostStatus_def processHostTimestamps_def
      setTimestampMetric_def Let_def)

text \<open>
  Claim C2 says that a host whose \<^verbatim>\<open>modified\<close> string does not parse still has its
  group-membership and group-info gauges written. The code does not do that: for the
  host \<open>host_stale\<close> (member of the group "db", with a parseable facts timestamp)
  \<^verbatim>\<open>processHost\<close> writes the info, status and "created" observations and returns the
  parse error; after the page, the registry has no membership, group-info or
  facts-modified entry for that host. The next host of the page is processed.
\<close>

theorem unparseable_modified_skips_groups:
  "processHost tp_ex host_stale =
     ([(hostInfo, [''8'', ''db1'', ''2'', ''prod'', ''false'', ''i-2''], 1),
       (hostStatus, [''8'', ''db1'', ''active_failures'', ''db''], 0),
       (hostStatus, [''8'', ''db1'', ''inventory_sources'', ''db''], 1),
       (hostTimestamps, [''8'', ''db1'', ''created''], 1704067200)],
      Some (TimeParseError ''yesterday''))
   \<and> gauge (processHosts tp_ex [host_stale, host_lonely] empty_registry) hostGroupMembership
        [''8'', ''db1'', ''3'', ''db''] = None
   \<and> gauge (processHosts tp_ex [host_stale, host_lonely] empty_registry) groupInfo
        [''3'', ''db'', ''2''] = None
   \<and> gauge (processHosts tp_ex [host_stale, host_lonely] empty_registry) hostTimestamps
        [''8'', ''db1'', ''ansible_facts_modified''] = None
   \<and> gauge (processHosts tp_ex [host_stale, host_lonely] empty_registry) hostInfo
        [''9'', ''lonely'', ''2'', ''prod'', ''true'', ''''] = Some 1"
  by (simp add: processHost_stale processHost_lonely processHosts_def SetGauges_def
      IncrementHostsProcessed_def empty_registry_def)

text \<open>
  The observations of \<^verbatim>\<open>processHostStatus\<close> all belong to the host-status vector, so
  a host whose "created" timestamp parses and whose "modified" timestamp does not has
  no membership and no group-info observation at all, however many groups it has.
\<close>

lemma processHostStatus_family:
  "ob \<in> set (fst (processHostStatus host idStr)) \<Longrightarrow> fst ob = hostStatus"
  by (auto simp add: processHostStatus_def Let_def split: if_splits)

lemma processHost_modified_unparseable_no_groups:
  assumes "tp (h_Created host) = Some c" and "tp (h_Modified host) = None"
  shows "filter (\<lambda>ob. fst ob = hostGroupMembership) (fst (processHost tp host)) = []"
    and "filter (\<lambda>ob. fst ob = groupInfo) (fst (processHost tp host)) = []"
  using processHostStatus_family [of _ host "Itoa (h_ID host)"]
  by (auto simp add: processHost_modified_unparseable [OF assms] filter_empty_conv)

text \<open>
  Claim C3 says that processing a host with \<open>N > 0\<close> groups writes \<open>2N\<close> host-status
  observations, \<open>N\<close> membership observations and \<open>N\<close> group-info observations. The
  code does not do that for every host: \<open>host_stale\<close> has one group and a
  \<^verbatim>\<open>modified\<close> string that does not parse, and \<^verbatim>\<open>processHost\<close> writes its two
  host-status observations but no membership and no group-info observation, because
  it returns before \<^verbatim>\<open>processHostGroups\<close> is called (the early return of claim C2).
  For \<open>host_web1\<close>, with two groups and timestamps that parse, the numbers are
  4, 2 and 2, as the claim says.
\<close>

theorem stale_host_group_observations:
  "length (grps_Results (sf_Groups (h_SummaryFields host_stale))) = 1
   \<and> filter (\<lambda>ob. fst ob = hostStatus) (fst (processHost tp_ex host_stale)) =
       [(hostStatus, [''8'', ''db1'', ''active_failures'', ''db''], 0),
        (hostStatus, [''8'', ''db1'', ''inventory_sources'', ''db''], 1)]
   \<and> filter (\<lambda>ob. fst ob = hostGroupMembership) (fst (processHost tp_ex host_stale)) = []
   \<and> filter (\<lambda>ob. fst ob = groupInfo) (fst (processHost tp_ex host_stale)) = []
   \<and> snd (processHost tp_ex host_stale) = Some (TimeParseError ''yesterday'')
   \<and> length (grps_Results (sf_Groups (h_SummaryFields host_web1))) = 2
   \<and> length (filter (\<lambda>ob. fst ob = hostStatus) (fst (processHost tp_ex host_web1))) = 4
   \<and> filter (\<lambda>ob. fst ob = hostGroupMembership) (fst (processHost tp_ex host_web1)) =
       [(hostGroupMembership, [''7'', ''web1'', ''3'', ''db''], 1),
        (hostGroupMembership, [''7'', ''web1'', ''4'', ''web''], 1)]
   \<and> filter (\<lambda>ob. fst ob = groupInfo) (fst (processHost tp_ex host_web1)) =
       [(groupInfo, [''3'', ''db'', ''2''], 1), (groupInfo, [''4'', ''web'', ''2''], 1)]"
  by (simp add: processHost_stale processHost_web1) (simp add: host_stale_def host_web1_def)

section \<open>The fetch client\<close>

lemma makeAWXRequest_status:
  "srv n urlStr = Responded resp \<Longrightarrow> StatusCode resp \<noteq> 200 \<Longrightarrow>
     makeAWXRequest srv n config urlStr = Inl (APIStatusError (StatusCode resp) (Status resp) (Body resp))"
  by (simp add: makeAWXRequest_def)

lemma makeAWXRequest_unreadable:
  "srv n urlStr = Responded resp \<Longrightarrow> StatusCode resp = 200 \<Longrightarrow> ReadFailed resp \<Longrightarrow>
     makeAWXRequest srv n config urlStr = Inl (ReadBodyError urlStr)"
  by (simp add: makeAWXRequest_def)

lemma makeAWXRequest_html:
  "srv n urlStr = Responded resp \<Longrightarrow> StatusCode resp = 200 \<Longrightarrow> \<not> ReadFailed resp \<Longrightarrow>
   Contains (Body resp) ''<html'' \<Longrightarrow>
     makeAWXRequest srv n config urlStr = Inl (HTMLResponseError urlStr)"
  by (cases "Body resp") (simp_all add: makeAWXRequest_def)

lemma makeAWXRequest_ok_iff:
  "srv n urlStr = Responded resp \<Longrightarrow>
     (makeAWXRequest srv n config urlStr = Inr body) =
     (StatusCode resp = 200 \<and> \<not> ReadFailed resp \<and> \<not> Contains (Body resp) ''<html'' \<and> body = Body resp)"
  by (cases "Body resp") (auto simp add: makeAWXRequest_def)

lemma fetchLoop_html:
  assumes "urlStr \<noteq> ''''" and "srv (length reqs) urlStr = Responded resp" and "StatusCode resp = 200"
    and "\<not> ReadFailed resp" and "Contains (Body resp) ''<html''"
  shows "fetchLoop (Suc fuel) tp um srv config urlStr reqs reg =
     Some (RecordScrapeError reg, reqs @ [urlStr], Some (FetchError urlStr (HTMLResponseError urlStr)))"
  using assms by (simp add: makeAWXRequest_html)

text \<open>
  Claim C5 as stated fails: a response with status 201, a success status, is an error
  for \<^verbatim>\<open>makeAWXRequest\<close>, and the error carries the whole body of 300 bytes.
\<close>

theorem fetch_error_iff_non_2xx_counterexample:
  "makeAWXRequest srv_created 0 config_ex ''https://awx.example.com/api/v2/hosts/?format=json'' =
     Inl (APIStatusError 201 ''201 Created'' (replicate 300 (CHR ''x'')))
   \<and> length (replicate 300 (CHR ''x'')) = 300"
  by (simp add: makeAWXRequest_def srv_created_def)

text \<open>
  Claim C5, amended. For every response received: a status code other than 200 (other
  success codes included) is an error that carries the status code, the status line
  and the whole body; with status 200, a body that could not be read is an error; with
  status 200 and a readable body that contains \<^verbatim>\<open><html\<close>, the fetch returns an error,
  and the pagination loop stops with that error whatever the JSON decoder \<open>um\<close> is, so
  decoding is not attempted; the fetch returns the body exactly when the status is 200,
  the body was read and does not contain \<^verbatim>\<open><html\<close>.
\<close>

theorem fetch_error_cases:
  assumes "srv (length reqs) urlStr = Responded resp"
  shows "(StatusCode resp \<noteq> 200 \<longrightarrow>
            makeAWXRequest srv (length reqs) config urlStr =
              Inl (APIStatusError (StatusCode resp) (Status resp) (Body resp)))
       \<and> (StatusCode resp = 200 \<and> ReadFailed resp \<longrightarrow>
            makeAWXRequest srv (length reqs) config urlStr = Inl (ReadBodyError urlStr))
       \<and> (StatusCode resp = 200 \<and> \<not> ReadFailed resp \<and> Contains (Body resp) ''<html'' \<longrightarrow>
            makeAWXRequest srv (length reqs) config urlStr = Inl (HTMLResponseError urlStr)
          \<and> (urlStr \<noteq> '''' \<longrightarrow>
               fetchLoop (Suc fuel) tp um srv config urlStr reqs reg =
                 Some (RecordScrapeError reg, reqs @ [urlStr],
                       Some (FetchError urlStr (HTMLResponseError urlStr)))))
       \<and> ((makeAWXRequest srv (length reqs) config urlStr = Inr body) =
            (StatusCode resp = 200 \<and> \<not> ReadFailed resp \<and> \<not> Contains (Body resp) ''<html''
             \<and> body = Body resp))"
  using assms makeAWXRequest_status [of srv "length reqs" urlStr resp config]
    makeAWXRequest_unreadable [of srv "length reqs" urlStr resp config]
    makeAWXRequest_html [of srv "length reqs" urlStr resp config]
    makeAWXRequest_ok_iff [of srv "length reqs" urlStr resp config body]
    fetchLoop_html [of urlStr srv reqs resp fuel tp um config reg]
  by blast

theorem fetch_error_cases_witness:
  "makeAWXRequest srv_unavailable 0 config_ex ''https://awx.example.com/api/v2/hosts/?format=json'' =
     Inl (APIStatusError 503 ''503 Service Unavailable'' ''try later'')
   \<and> makeAWXRequest srv_login 0 config_ex ''https://awx.example.com/api/v2/hosts/?format=json'' =
       Inl (HTMLResponseError ''https://awx.example.com/api/v2/hosts/?format=json'')
   \<and> fetchLoop (Suc 0) tp_ex (\<lambda>body. None) srv_login config_ex
        ''https://awx.example.com/api/v2/hosts/?format=json'' [] empty_registry =
       Some (RecordScrapeError empty_registry, [''https://awx.example.com/api/v2/hosts/?format=json''],
             Some (FetchError ''https://awx.example.com/api/v2/hosts/?format=json''
                     (HTMLResponseError ''https://awx.example.com/api/v2/hosts/?format=json'')))
   \<and> makeAWXRequest srv_cut 0 config_ex ''https://awx.example.com/api/v2/hosts/?format=json'' =
       Inl (ReadBodyError ''https://awx.example.com/api/v2/hosts/?format=json'')
   \<and> makeAWXRequest srv_plain 0 config_ex ''https://awx.example.com/api/v2/hosts/?format=json'' =
       Inr ''{}''"
  using fetch_error_cases [of srv_unavailable "[]" "''https://awx.example.com/api/v2/hosts/?format=json''"
      "\<lparr>StatusCode = 503, Status = ''503 Service Unavailable'', Body = ''try later'', ReadFailed = False\<rparr>"
      config_ex 0 tp_ex "\<lambda>body. None" empty_registry "''{}''"]
    fetch_error_cases [of srv_login "[]" "''https://awx.example.com/api/v2/hosts/?format=json''"
      "\<lparr>StatusCode = 200, Status = ''200 OK'',
        Body = ''<!DOCTYPE html><html><body>Login</body></html>'', ReadFailed = False\<rparr>"
      config_ex 0 tp_ex "\<lambda>body. None" empty_registry "''{}''"]
    fetch_error_cases [of srv_plain "[]" "''https://awx.example.com/api/v2/hosts/?format=json''"
      "\<lparr>StatusCode = 200, Status = ''200 OK'', Body = ''{}'', ReadFailed = False\<rparr>"
      config_ex 0 tp_ex "\<lambda>body. None" empty_registry "''{}''"]
    fetch_error_cases [of srv_cut "[]" "''https://awx.example.com/api/v2/hosts/?format=json''"
      "\<lparr>StatusCode = 200, Status = ''200 OK'', Body = ''{'', ReadFailed = True\<rparr>"
      config_ex 0 tp_ex "\<lambda>body. None" empty_registry "''{}''"]
  by (simp add: srv_unavailable_def srv_login_def srv_plain_def srv_cut_def)


section \<open>Job templates\<close>

lemma dropped_bits_small: "n < 2 ^ 53 \<Longrightarrow> dropped_bits n = 0"
  by (simp add: dropped_bits.simps)

lemma dropped_bits_large: "\<not> n < 2 ^ 53 \<Longrightarrow> dropped_bits n = Suc (dropped_bits (n div 2))"
  by (subst dropped_bits.simps) simp

lemma round_to_float64_small: "n \<le> 2 ^ 53 \<Longrightarrow> round_to_float64 n = n"
proof (cases "n < 2 ^ 53")
  case True
  then show ?thesis by (simp add: round_to_float64_def dropped_bits_small)
next
  case False
  assume "n \<le> 2 ^ 53"
  with False have n: "n = 2 ^ 53" by simp
  have "dropped_bits (2 ^ 53) = Suc 0"
    by (simp add: dropped_bits_large dropped_bits_small)
  then show ?thesis by (simp add: n round_to_float64_def)
qed

lemma float64_exact: "\<bar>i\<bar> \<le> 2 ^ 53 \<Longrightarrow> float64 i = i"
proof -
  assume a: "\<bar>i\<bar> \<le> 2 ^ 53"
  show ?thesis
  proof (cases "i < 0")
    case True
    with a have "nat (- i) \<le> 2 ^ 53" by (simp add: nat_le_iff)
    with True show ?thesis by (simp add: float64_def round_to_float64_small)
  next
    case False
    with a have "nat i \<le> 2 ^ 53" by (simp add: nat_le_iff)
    with False show ?thesis by (simp add: float64_def round_to_float64_small)
  qed
qed

lemma float64_beyond: "float64 9007199254740993 = 9007199254740992"
  by (simp add: float64_def round_to_float64_def dropped_bits_large dropped_bits_small)

lemma scrapeTemplate_failed:
  "inventoryFailedHosts (scrapeTemplate tp reg template) =
     (inventoryFailedHosts reg)(template_labels template \<mapsto>
        float64 (ti_HostsWithFailures (tsf_Inventory (jt_SummaryFields template))))"
  by (simp add: scrapeTemplate_def Let_def split: option.splits)

lemma scrapeTemplate_total:
  "inventoryTotalHosts (scrapeTemplate tp reg template) =
     (inventoryTotalHosts reg)(template_labels template \<mapsto>
        float64 (ti_TotalHosts (tsf_Inventory (jt_SummaryFields template))))"
  by (simp add: scrapeTemplate_def Let_def split: option.splits)

lemma scrapeTemplate_timestamp:
  "jobLastRunTimestamp (scrapeTemplate tp reg template) =
     (case template_timestamp tp template of
        None \<Rightarrow> jobLastRunTimestamp reg
      | Some (ls, unix) \<Rightarrow> (jobLastRunTimestamp reg)(ls \<mapsto> unix))"
  by (simp add: scrapeTemplate_def template_timestamp_def Let_def split: option.splits)

lemma scrapeResults_snoc:
  "scrapeResults tp (ts @ [t]) reg = scrapeTemplate tp (scrapeResults tp ts reg) t"
  by (simp add: scrapeResults_def)

lemma map_add_map_of_snoc:
  "m ++ map_of (rev (kvs @ [(k, v)])) = (m ++ map_of (rev kvs))(k \<mapsto> v)"
  by simp

lemma scrapeResults_Nil: "scrapeResults tp [] reg = reg"
  by (simp add: scrapeResults_def)

lemma scrapeResults_failed:
  "inventoryFailedHosts (scrapeResults tp results reg) =
     inventoryFailedHosts reg ++
       map_of (rev (map (\<lambda>t. (template_labels t,
                 float64 (ti_HostsWithFailures (tsf_Inventory (jt_SummaryFields t))))) results))"
proof (induction results rule: rev_induct)
  case Nil
  show ?case by (simp add: scrapeResults_Nil)
next
  case (snoc t ts)
  show ?case
    unfolding scrapeResults_snoc scrapeTemplate_failed snoc.IH map_append list.map
    by (rule map_add_map_of_snoc [symmetric])
qed

lemma scrapeResults_total:
  "inventoryTotalHosts (scrapeResults tp results reg) =
     inventoryTotalHosts reg ++
       map_of (rev (map (\<lambda>t. (template_labels t,
                 float64 (ti_TotalHosts (tsf_Inventory (jt_SummaryFields t))))) results))"
proof (induction results rule: rev_induct)
  case Nil
  show ?case by (simp add: scrapeResults_Nil)
next
  case (snoc t ts)
  show ?case
    unfolding scrapeResults_snoc scrapeTemplate_total snoc.IH map_append list.map
    by (rule map_add_map_of_snoc [symmetric])
qed

lemma map_filter_snoc:
  "List.map_filter f (xs @ [x]) =
     (case f x of None \<Rightarrow> List.map_filter f xs | Some y \<Rightarrow> List.map_filter f xs @ [y])"
  by (simp add: List.map_filter_def split: option.splits)

lemma scrapeResults_timestamp:
  "jobLastRunTimestamp (scrapeResults tp results reg) =
     jobLastRunTimestamp reg ++ map_of (rev (List.map_filter (template_timestamp tp) results))"
proof (induction results rule: rev_induct)
  case Nil
  show ?case by (simp add: scrapeResults_Nil List.map_filter_def)
next
  case (snoc t ts)
  show ?case
  proof (cases "template_timestamp tp t")
    case None
    then show ?thesis
      by (simp add: scrapeResults_snoc scrapeTemplate_timestamp snoc.IH map_filter_snoc)
  next
    case (Some kv)
    obtain k v where kv: "kv = (k, v)" by (cases kv)
    show ?thesis
      unfolding scrapeResults_snoc scrapeTemplate_timestamp snoc.IH map_filter_snoc Some kv
        option.case prod.case
      by (rule map_add_map_of_snoc [symmetric])
  qed
qed

text \<open>
  Claim C6. For a job template, the failed-host gauge and the total-host gauge are
  written under the key (template id, template name) with the counts of the embedded
  inventory summary, converted to \<^verbatim>\<open>float64\<close>; the last-run gauge is written under the
  same key, with the epoch seconds converted likewise, only when \<^verbatim>\<open>last_job_run\<close> is
  not empty and parses, and is left as it was otherwise. The conversion keeps every
  number up to \<open>2 ^ 53\<close> in absolute value as it is. For a page, each gauge vector is
  the previous one overwritten by the templates' entries in the order of the page.
\<close>

theorem job_template_gauges:
  "template_labels template = [Itoa (jt_ID template), jt_Name template]
   \<and> inventoryFailedHosts (scrapeTemplate tp reg template) =
       (inventoryFailedHosts reg)(template_labels template \<mapsto>
          float64 (ti_HostsWithFailures (tsf_Inventory (jt_SummaryFields template))))
   \<and> inventoryTotalHosts (scrapeTemplate tp reg template) =
       (inventoryTotalHosts reg)(template_labels template \<mapsto>
          float64 (ti_TotalHosts (tsf_Inventory (jt_SummaryFields template))))
   \<and> jobLastRunTimestamp (scrapeTemplate tp reg template) =
       (if jt_LastJobRun template = '''' then jobLastRunTimestamp reg
        else case tp (jt_LastJobRun template) of
               None \<Rightarrow> jobLastRunTimestamp reg
             | Some unix \<Rightarrow> (jobLastRunTimestamp reg)(template_labels template \<mapsto> float64 unix))
   \<and> (\<bar>n\<bar> \<le> 2 ^ 53 \<longrightarrow> float64 n = n)
   \<and> inventoryFailedHosts (scrapeResults tp results reg) =
       inventoryFailedHosts reg ++
         map_of (rev (map (\<lambda>t. (template_labels t,
                   float64 (ti_HostsWithFailures (tsf_Inventory (jt_SummaryFields t))))) results))
   \<and> inventoryTotalHosts (scrapeResults tp results reg) =
       inventoryTotalHosts reg ++
         map_of (rev (map (\<lambda>t. (template_labels t,
                   float64 (ti_TotalHosts (tsf_Inventory (jt_SummaryFields t))))) results))
   \<and> jobLastRunTimestamp (scrapeResults tp results reg) =
       jobLastRunTimestamp reg ++ map_of (rev (List.map_filter (template_timestamp tp) results))"
  using scrapeTemplate_failed [of tp reg template] scrapeTemplate_total [of tp reg template]
    scrapeTemplate_timestamp [of tp reg template] scrapeResults_failed [of tp results reg]
    scrapeResults_total [of tp results reg] scrapeResults_timestamp [of tp results reg]
    float64_exact [of n]
  by (simp add: template_labels_def template_timestamp_def split: option.splits)

theorem job_template_gauges_witness:
  "inventoryFailedHosts
      (scrapeResults tp_ex [tmpl_deploy, tmpl_never, tmpl_garbled, tmpl_huge] empty_template_registry)
      [''5'', ''deploy''] = Some 1
   \<and> inventoryTotalHosts
      (scrapeResults tp_ex [tmpl_deploy, tmpl_never, tmpl_garbled, tmpl_huge] empty_template_registry)
      [''6'', ''never-run''] = Some 3
   \<and> inventoryTotalHosts
      (scrapeResults tp_ex [tmpl_deploy, tmpl_never, tmpl_garbled, tmpl_huge] empty_template_registry)
      [''4'', ''patch''] = Some 2
   \<and> inventoryFailedHosts
      (scrapeResults tp_ex [tmpl_deploy, tmpl_never, tmpl_garbled, tmpl_huge] empty_template_registry)
      [''3'', ''fleet''] = Some 9007199254740992
   \<and> inventoryTotalHosts
      (scrapeResults tp_ex [tmpl_deploy, tmpl_never, tmpl_garbled, tmpl_huge] empty_template_registry)
      [''3'', ''fleet''] = Some 9007199254740992
   \<and> jobLastRunTimestamp
      (scrapeResults tp_ex [tmpl_deploy, tmpl_never, tmpl_garbled, tmpl_huge] empty_template_registry)
      [''5'', ''deploy''] = Some 1704067200
   \<and> jobLastRunTimestamp
      (scrapeResults tp_ex [tmpl_deploy, tmpl_never, tmpl_garbled, tmpl_huge] empty_template_registry)
      [''6'', ''never-run''] = None
   \<and> jobLastRunTimestamp
      (scrapeResults tp_ex [tmpl_deploy, tmpl_never, tmpl_garbled, tmpl_huge] empty_template_registry)
      [''4'', ''patch''] = None
   \<and> float64 10 = 10"
  using job_template_gauges [of tmpl_deploy tp_ex empty_template_registry 10
      "[tmpl_deploy, tmpl_never, tmpl_garbled, tmpl_huge]"]
  by (simp add: template_labels_def template_timestamp_def tmpl_deploy_def tmpl_never_def
      tmpl_garbled_def tmpl_huge_def empty_template_registry_def tp_ex_def List.map_filter_def
      Itoa_def utoa_digit digit_char_def float64_exact float64_beyond)

section \<open>The scrape interval at startup\<close>

lemma Atoi_soon: "Atoi ''soon'' = None"
  by (simp add: Atoi_def is_digit_def)

lemma loadConfig_env_soon: "loadConfig env_soon = Inr config_ex"
  by (simp add: loadConfig_def env_soon_def config_ex_def validateConfig_def getEnvOrDefault_def
      getEnvAsBool_def Getenv_def)

lemma Getenv_env_soon:
  "Getenv env_soon ''SCRAPE_INTERVAL'' = ''soon''" "Getenv env_soon ''PORT'' = []"
  by (simp_all add: Getenv_def env_soon_def)

text \<open>
  Claim C7 as stated fails for the host exporter: with the interval "soon" and the
  credentials set, \<^verbatim>\<open>main\<close> goes on with the default interval of five minutes.
\<close>

theorem invalid_interval_fatal_counterexample:
  "main_startup env_soon = Started config_ex 300000000000 ''8080''"
  by (simp add: main_startup_def loadConfig_env_soon getScrapeInterval_def getPort_def
      getEnvOrDefault_def Getenv_env_soon Atoi_soon defaultScrapeInterval_def defaultPort_def
      wrap64_def Minute_def)

lemma default_interval: "defaultScrapeInterval = 300000000000"
  by (simp add: defaultScrapeInterval_def wrap64_def Minute_def)

lemma getScrapeInterval_invalid:
  "Atoi (Getenv env ''SCRAPE_INTERVAL'') = None \<or> (\<exists>m. Atoi (Getenv env ''SCRAPE_INTERVAL'') = Some m \<and> m \<le> 0)
   \<Longrightarrow> getScrapeInterval env = defaultScrapeInterval"
  by (auto simp add: getScrapeInterval_def Let_def)

lemma main_startup_jt_invalid:
  "pd (getEnv env ''SCRAPE_INTERVAL'' ''24h'') = None \<Longrightarrow>
   main_startup_jt pd env =
     Exited_jt (if Getenv env ''AWX_USERNAME'' = '''' \<or> Getenv env ''AWX_PASSWORD'' = ''''
                then ConfigError ''AWX_USERNAME and AWX_PASSWORD must be set''
                else ConfigError ''invalid SCRAPE_INTERVAL duration'')"
  by (simp add: main_startup_jt_def loadConfig_jt_def Let_def)

text \<open>
  Claim C7, amended. In the job-template exporter, an interval string that
  \<^verbatim>\<open>time.ParseDuration\<close> rejects makes \<^verbatim>\<open>loadConfig\<close> fail and \<^verbatim>\<open>main\<close> exit (with
  the interval error when the credentials are set). In the host exporter, when the
  credentials are set and the interval variable is unset, is rejected by
  \<^verbatim>\<open>strconv.Atoi\<close> (not a decimal integer, or outside the 64-bit range), or is not
  positive, \<^verbatim>\<open>main\<close> goes on with the default interval of five minutes.
\<close>

theorem invalid_interval_startup:
  "(pd (getEnv env ''SCRAPE_INTERVAL'' ''24h'') = None \<longrightarrow>
      main_startup_jt pd env =
        Exited_jt (if Getenv env ''AWX_USERNAME'' = '''' \<or> Getenv env ''AWX_PASSWORD'' = ''''
                   then ConfigError ''AWX_USERNAME and AWX_PASSWORD must be set''
                   else ConfigError ''invalid SCRAPE_INTERVAL duration''))
   \<and> (loadConfig env = Inr config \<and>
       (Atoi (Getenv env ''SCRAPE_INTERVAL'') = None
        \<or> (\<exists>m. Atoi (Getenv env ''SCRAPE_INTERVAL'') = Some m \<and> m \<le> 0)) \<longrightarrow>
      main_startup env = Started config (5 * Minute) (getPort env))"
  using main_startup_jt_invalid [of pd env] getScrapeInterval_invalid [of env]
  by (auto simp add: main_startup_def default_interval Minute_def)

lemma Getenv_env_jt_soon:
  "Getenv env_jt_soon ''AWX_USERNAME'' = ''exporter''" "Getenv env_jt_soon ''AWX_PASSWORD'' = ''secret''"
  "getEnv env_jt_soon ''SCRAPE_INTERVAL'' ''24h'' = ''soon''"
  by (simp_all add: Getenv_def getEnv_def env_jt_soon_def)

lemma getPort_env_soon: "getPort env_soon = ''8080''"
  by (simp add: getPort_def getEnvOrDefault_def Getenv_env_soon defaultPort_def)

theorem invalid_interval_startup_witness:
  "main_startup_jt pd_ex env_jt_soon = Exited_jt (ConfigError ''invalid SCRAPE_INTERVAL duration'')
   \<and> main_startup env_soon = Started config_ex (5 * Minute) ''8080''"
proof -
  have a: "pd_ex (getEnv env_jt_soon ''SCRAPE_INTERVAL'' ''24h'') = None"
    by (simp add: Getenv_env_jt_soon pd_ex_def)
  have b: "loadConfig env_soon = Inr config_ex \<and>
       (Atoi (Getenv env_soon ''SCRAPE_INTERVAL'') = None
        \<or> (\<exists>m. Atoi (Getenv env_soon ''SCRAPE_INTERVAL'') = Some m \<and> m \<le> 0))"
    by (simp add: loadConfig_env_soon Getenv_env_soon Atoi_soon)
  from a invalid_interval_startup [of pd_ex env_jt_soon config_ex]
  have "main_startup_jt pd_ex env_jt_soon = Exited_jt (ConfigError ''invalid SCRAPE_INTERVAL duration'')"
    by (simp add: Getenv_env_jt_soon)
  moreover from b invalid_interval_startup [of pd_ex env_soon config_ex]
  have "main_startup env_soon = Started config_ex (5 * Minute) (getPort env_soon)"
    by blast
  ultimately show ?thesis by (simp add: getPort_env_soon)
qed



section \<open>Reset and the self-monitoring metrics\<close>

lemma Reset_frame [simp]:
  "scrapeDuration (Reset f reg) = scrapeDuration reg"
  "scrapeErrors (Reset f reg) = scrapeErrors reg"
  "hostsProcessed (Reset f reg) = hostsProcessed reg"
  by (simp_all add: Reset_def)

lemma ResetAllMetrics_frame:
  "scrapeDuration (ResetAllMetrics reg) = scrapeDuration reg"
  "scrapeErrors (ResetAllMetrics reg) = scrapeErrors reg"
  "hostsProcessed (ResetAllMetrics reg) = hostsProcessed reg"
  by (simp_all add: ResetAllMetrics_def)

lemma ResetAllMetrics_gauge: "gauge (ResetAllMetrics reg) f = Map.empty"
  by (cases f) (simp_all add: ResetAllMetrics_def Reset_def)

lemma fetchLoop_counters:
  "fetchLoop fuel tp um srv config url reqs reg = Some (reg', reqs', err) \<Longrightarrow>
     scrapeDuration reg' = scrapeDuration reg
     \<and> hostsProcessed reg \<le> hostsProcessed reg'
     \<and> scrapeErrors reg' = scrapeErrors reg + (if err = None then 0 else 1)"
proof (induction fuel arbitrary: url reqs reg)
  case 0
  then show ?case by simp
next
  case (Suc fuel)
  show ?case
  proof (cases "url = ''''")
    case True
    with Suc.prems show ?thesis by simp
  next
    case False
    show ?thesis
    proof (cases "makeAWXRequest srv (length reqs) config url")
      case (Inl e)
      with False Suc.prems show ?thesis by (auto simp add: RecordScrapeError_def)
    next
      case (Inr body)
      show ?thesis
      proof (cases "um body")
        case None
        with False Inr Suc.prems show ?thesis by (auto simp add: RecordScrapeError_def)
      next
        case (Some page)
        with False Inr Suc.prems
        have "fetchLoop fuel tp um srv config (buildURL config (hr_Next page)) (reqs @ [url])
                (processHosts tp (hr_Results page) reg) = Some (reg', reqs', err)"
          by simp
        from Suc.IH [OF this] show ?thesis by (simp add: processHosts_frame)
      qed
    qed
  qed
qed

lemma fetchAndUpdateMetrics_counters:
  assumes "fetchAndUpdateMetrics fuel tp um srv elapsed config reg = Some (reg', reqs', err)"
  shows "scrapeDuration reg' = scrapeDuration reg @ [elapsed]"
    and "hostsProcessed reg \<le> hostsProcessed reg'"
    and "scrapeErrors reg' = scrapeErrors reg + (if err = None then 0 else 1)"
proof -
  from assms obtain r where
    r: "fetchLoop fuel tp um srv config (buildURL config ''/api/v2/hosts/?format=json'') []
          (ResetAllMetrics reg) = Some (r, reqs', err)" and reg': "reg' = Observe elapsed r"
    by (auto simp add: fetchAndUpdateMetrics_def split: option.splits)
  from fetchLoop_counters [OF r] show "scrapeDuration reg' = scrapeDuration reg @ [elapsed]"
    and "hostsProcessed reg \<le> hostsProcessed reg'"
    and "scrapeErrors reg' = scrapeErrors reg + (if err = None then 0 else 1)"
    by (simp_all add: reg' Observe_def ResetAllMetrics_frame)
qed

lemma collect_counters:
  assumes "collect fuel tp um world config reg = Some reg'"
  shows "scrapeDuration reg' = scrapeDuration reg @ [snd world]"
    and "hostsProcessed reg \<le> hostsProcessed reg'"
    and "scrapeErrors reg \<le> scrapeErrors reg'"
proof -
  from assms obtain r reqs err where
    f: "fetchAndUpdateMetrics fuel tp um (fst world) (snd world) config reg = Some (r, reqs, err)"
    and reg': "reg' = (if err = None then r else RecordScrapeError r)"
    by (auto simp add: collect_def split: option.splits)
  from fetchAndUpdateMetrics_counters [OF f]
  show "scrapeDuration reg' = scrapeDuration reg @ [snd world]"
    and "hostsProcessed reg \<le> hostsProcessed reg'"
    and "scrapeErrors reg \<le> scrapeErrors reg'"
    by (simp_all add: reg' RecordScrapeError_def)
qed

lemma tickerLoop_counters:
  "tickerLoop fuel tp um ticks config reg = Some reg' \<Longrightarrow>
     scrapeDuration reg' = scrapeDuration reg @ map snd ticks
     \<and> hostsProcessed reg \<le> hostsProcessed reg'
     \<and> scrapeErrors reg \<le> scrapeErrors reg'"
proof (induction ticks arbitrary: reg)
  case Nil
  then show ?case by simp
next
  case (Cons world ticks)
  from Cons.prems obtain r where c: "collect fuel tp um world config reg = Some r"
    and t: "tickerLoop fuel tp um ticks config r = Some reg'"
    by (auto split: option.splits)
  from collect_counters [OF c] Cons.IH [OF t] show ?case by simp
qed

lemma updateMetrics_counters:
  assumes "updateMetrics fuel tp um initial ticks config reg = Some reg'"
  shows "scrapeDuration reg' = scrapeDuration reg @ map snd (initial # ticks)
     \<and> hostsProcessed reg \<le> hostsProcessed reg'
     \<and> scrapeErrors reg \<le> scrapeErrors reg'"
proof -
  from assms obtain r where c: "collect fuel tp um initial config reg = Some r"
    and t: "tickerLoop fuel tp um ticks config r = Some reg'"
    by (auto simp add: updateMetrics_def split: option.splits)
  from collect_counters [OF c] tickerLoop_counters [OF t] show ?thesis by simp
qed

section \<open>The pagination loop\<close>

lemma decodedPages_empty_url [simp]: "decodedPages fuel um srv config '''' n = []"
  by (cases fuel) simp_all

lemma processPages_Cons:
  "processPages tp reg (page # pages) = processPages tp (processHosts tp (hr_Results page) reg) pages"
  by (simp add: processPages_def)

lemma fetchLoop_registry:
  "fetchLoop fuel tp um srv config url reqs reg = Some (reg', reqs', err) \<Longrightarrow>
     reg' = (if err = None then processPages tp reg (decodedPages fuel um srv config url (length reqs))
             else RecordScrapeError
                    (processPages tp reg (decodedPages fuel um srv config url (length reqs))))"
proof (induction fuel arbitrary: url reqs reg)
  case 0
  then show ?case by simp
next
  case (Suc fuel)
  show ?case
  proof (cases "url = ''''")
    case True
    with Suc.prems show ?thesis by (simp add: processPages_def)
  next
    case False
    show ?thesis
    proof (cases "makeAWXRequest srv (length reqs) config url")
      case (Inl e)
      with False Suc.prems show ?thesis by (auto simp add: processPages_def)
    next
      case (Inr body)
      show ?thesis
      proof (cases "um body")
        case None
        with False Inr Suc.prems show ?thesis by (auto simp add: processPages_def)
      next
        case (Some page)
        with False Inr Suc.prems
        have "fetchLoop fuel tp um srv config (buildURL config (hr_Next page)) (reqs @ [url])
                (processHosts tp (hr_Results page) reg) = Some (reg', reqs', err)"
          by simp
        from Suc.IH [OF this] False Inr Some show ?thesis
          by (simp add: processPages_Cons)
      qed
    qed
  qed
qed

lemma fetchLoop_requests:
  "fetchLoop fuel tp um srv config url reqs reg = Some (reg', reqs', err) \<Longrightarrow>
     reqs' @ (if err = None then [''''] else []) =
       reqs @ (if url = '''' then ['''']
               else url # map (\<lambda>page. buildURL config (hr_Next page))
                            (decodedPages fuel um srv config url (length reqs)))"
proof (induction fuel arbitrary: url reqs reg)
  case 0
  then show ?case by simp
next
  case (Suc fuel)
  show ?case
  proof (cases "url = ''''")
    case True
    with Suc.prems show ?thesis by simp
  next
    case False
    show ?thesis
    proof (cases "makeAWXRequest srv (length reqs) config url")
      case (Inl e)
      with False Suc.prems show ?thesis by auto
    next
      case (Inr body)
      show ?thesis
      proof (cases "um body")
        case None
        with False Inr Suc.prems show ?thesis by auto
      next
        case (Some page)
        with False Inr Suc.prems
        have "fetchLoop fuel tp um srv config (buildURL config (hr_Next page)) (reqs @ [url])
                (processHosts tp (hr_Results page) reg) = Some (reg', reqs', err)"
          by simp
        from Suc.IH [OF this] False Inr Some show ?thesis
          by (cases "buildURL config (hr_Next page) = ''''") simp_all
      qed
    qed
  qed
qed

lemma fetchLoop_requests_nonempty:
  "fetchLoop fuel tp um srv config url reqs reg = Some (reg', reqs', err) \<Longrightarrow>
     '''' \<notin> set reqs \<Longrightarrow> '''' \<notin> set reqs'"
proof (induction fuel arbitrary: url reqs reg)
  case 0
  then show ?case by simp
next
  case (Suc fuel)
  show ?case
  proof (cases "url = ''''")
    case True
    with Suc.prems show ?thesis by simp
  next
    case False
    show ?thesis
    proof (cases "makeAWXRequest srv (length reqs) config url")
      case (Inl e)
      with False Suc.prems show ?thesis by auto
    next
      case (Inr body)
      show ?thesis
      proof (cases "um body")
        case None
        with False Inr Suc.prems show ?thesis by auto
      next
        case (Some page)
        with False Inr Suc.prems
        have "fetchLoop fuel tp um srv config (buildURL config (hr_Next page)) (reqs @ [url])
                (processHosts tp (hr_Results page) reg) = Some (reg', reqs', err)"
          by simp
        from Suc.IH [OF this] False Suc.prems(2) show ?thesis by simp
      qed
    qed
  qed
qed

lemma fetchLoop_more_fuel:
  "fetchLoop fuel tp um srv config url reqs reg = Some res \<Longrightarrow>
     fetchLoop (fuel + k) tp um srv config url reqs reg = Some res"
proof (induction fuel arbitrary: url reqs reg)
  case 0
  then show ?case by simp
next
  case (Suc fuel)
  show ?case
  proof (cases "url = ''''")
    case True
    with Suc.prems show ?thesis by simp
  next
    case False
    show ?thesis
    proof (cases "makeAWXRequest srv (length reqs) config url")
      case (Inl e)
      with False Suc.prems show ?thesis by auto
    next
      case (Inr body)
      show ?thesis
      proof (cases "um body")
        case None
        with False Inr Suc.prems show ?thesis by auto
      next
        case (Some page)
        with False Inr Suc.prems
        have "fetchLoop fuel tp um srv config (buildURL config (hr_Next page)) (reqs @ [url])
                (processHosts tp (hr_Results page) reg) = Some res"
          by simp
        from Suc.IH [OF this] False Inr Some show ?thesis by simp
      qed
    qed
  qed
qed

lemma length_decodedPages_le: "length (decodedPages fuel um srv config url n) \<le> fuel"
proof (induction fuel arbitrary: url n)
  case 0
  show ?case by simp
next
  case (Suc fuel)
  show ?case
    using Suc.IH by (auto split: sum.splits option.splits)
qed

lemma fetchLoop_None_iff:
  "(fetchLoop fuel tp um srv config url reqs reg = None) =
   (length (decodedPages fuel um srv config url (length reqs)) = fuel)"
proof (induction fuel arbitrary: url reqs reg)
  case 0
  show ?case by simp
next
  case (Suc fuel)
  show ?case
  proof (cases "url = ''''")
    case True
    then show ?thesis by simp
  next
    case False
    show ?thesis
    proof (cases "makeAWXRequest srv (length reqs) config url")
      case (Inl e)
      with False show ?thesis by simp
    next
      case (Inr body)
      show ?thesis
      proof (cases "um body")
        case None
        with False Inr show ?thesis by simp
      next
        case (Some page)
        from Suc.IH [of "buildURL config (hr_Next page)" "reqs @ [url]"
            "processHosts tp (hr_Results page) reg"]
        show ?thesis using False Inr Some by simp
      qed
    qed
  qed
qed

lemma decodedPages_more_fuel:
  "length (decodedPages fuel um srv config url n) < fuel \<Longrightarrow>
     decodedPages (fuel + k) um srv config url n = decodedPages fuel um srv config url n"
proof (induction fuel arbitrary: url n)
  case 0
  then show ?case by simp
next
  case (Suc fuel)
  show ?case
  proof (cases "url = ''''")
    case True
    then show ?thesis by simp
  next
    case False
    show ?thesis
    proof (cases "makeAWXRequest srv n config url")
      case (Inl e)
      with False show ?thesis by simp
    next
      case (Inr body)
      show ?thesis
      proof (cases "um body")
        case None
        with False Inr show ?thesis by simp
      next
        case (Some page)
        with False Inr Suc.prems
        have "length (decodedPages fuel um srv config (buildURL config (hr_Next page)) (Suc n)) < fuel"
          by simp
        from Suc.IH [OF this] False Inr Some show ?thesis by simp
      qed
    qed
  qed
qed

lemma fetchLoop_returns:
  assumes "length (decodedPages fuel um srv config url (length reqs)) < fuel"
  shows "\<exists>r q e. fetchLoop fuel tp um srv config url reqs reg = Some (r, q, e)
           \<and> q @ (if e = None then [''''] else []) =
               reqs @ (if url = '''' then ['''']
                       else url # map (\<lambda>page. buildURL config (hr_Next page))
                                    (decodedPages fuel um srv config url (length reqs)))"
proof -
  from assms have "fetchLoop fuel tp um srv config url reqs reg \<noteq> None"
    by (simp add: fetchLoop_None_iff)
  then obtain r q e where s: "fetchLoop fuel tp um srv config url reqs reg = Some (r, q, e)"
    by (cases "fetchLoop fuel tp um srv config url reqs reg") auto
  from fetchLoop_requests [OF s] s show ?thesis by blast
qed

lemma buildURL_absolute:
  "prefix ''http://'' next' \<or> prefix ''https://'' next' \<Longrightarrow> buildURL config next' = next'"
  by (simp add: buildURL_def)

lemma buildURL_relative:
  "\<not> prefix ''http://'' next' \<Longrightarrow> \<not> prefix ''https://'' next' \<Longrightarrow> next' \<noteq> '''' \<Longrightarrow> next' \<noteq> ''/'' \<Longrightarrow>
   buildURL config next' =
     (if cfg_UseHTTP config then ''http'' else ''https'') @ ''://'' @ cfg_Host config @
       (if prefix ''/'' next' then next' else ''/'' @ next')"
  by (simp add: buildURL_def Let_def)

lemma buildURL_empty_iff: "(buildURL config next' = '''') = (next' = '''' \<or> next' = ''/'')"
  by (auto simp add: buildURL_def Let_def)

section \<open>Gauge vectors after processing\<close>

lemma SetGauges_append: "SetGauges reg (xs @ ys) = SetGauges (SetGauges reg xs) ys"
  by (simp add: SetGauges_def)

lemma foldl_SetGauges_concat:
  "foldl (\<lambda>r x. SetGauges r (f x)) reg xs = SetGauges reg (concat (map f xs))"
  by (induction xs arbitrary: reg) (simp_all add: SetGauges_append, simp add: SetGauges_def)

lemma gauge_SetGauge:
  "gauge (SetGauge reg ob) fam =
     (if fst ob = fam then (gauge reg fam)(fst (snd ob) \<mapsto> snd (snd ob)) else gauge reg fam)"
  by (cases ob) simp

lemma gauge_SetGauges:
  "gauge (SetGauges reg obs) fam = gauge reg fam ++ map_of (rev (writes fam obs))"
proof (induction obs rule: rev_induct)
  case Nil
  show ?case by (simp add: SetGauges_def writes_def)
next
  case (snoc ob obs)
  show ?case
  proof (cases "fst ob = fam")
    case True
    have "gauge (SetGauges reg (obs @ [ob])) fam =
            (gauge (SetGauges reg obs) fam)(fst (snd ob) \<mapsto> snd (snd ob))"
      using True by (simp add: SetGauges_def gauge_SetGauge)
    also have "\<dots> = (gauge reg fam ++ map_of (rev (writes fam obs)))(fst (snd ob) \<mapsto> snd (snd ob))"
      by (simp only: snoc.IH)
    also have "\<dots> = gauge reg fam ++ map_of (rev (writes fam (obs @ [ob])))"
      using True by (simp add: writes_def)
    finally show ?thesis .
  next
    case False
    then show ?thesis
      using snoc.IH by (simp add: SetGauges_def gauge_SetGauge writes_def)
  qed
qed

lemma gauge_processHosts:
  "gauge (processHosts tp hosts reg) fam =
     gauge reg fam ++ map_of (rev (writes fam (concat (map (\<lambda>host. fst (processHost tp host)) hosts))))"
proof (cases "hosts = []")
  case True
  then show ?thesis by (simp add: processHosts_def writes_def)
next
  case False
  then show ?thesis
    by (simp add: processHosts_def Let_def IncrementHostsProcessed_def foldl_SetGauges_concat
        gauge_SetGauges)
qed

lemma map_add_twice: "(m ++ g) ++ g = m ++ g"
  by (rule ext) (simp add: map_add_def split: option.splits)

lemma gauge_processHosts_twice:
  "gauge (processHosts tp hosts (processHosts tp hosts reg)) = gauge (processHosts tp hosts reg)"
  by (rule ext) (simp add: gauge_processHosts map_add_twice)

lemma gauge_processHosts_cong:
  "gauge r1 = gauge r2 \<Longrightarrow> gauge (processHosts tp hosts r1) = gauge (processHosts tp hosts r2)"
  by (rule ext) (simp add: gauge_processHosts)

lemma gauge_processPages_cong:
  "gauge r1 = gauge r2 \<Longrightarrow> gauge (processPages tp r1 pages) = gauge (processPages tp r2 pages)"
proof (induction pages arbitrary: r1 r2)
  case Nil
  then show ?case by (simp add: processPages_def)
next
  case (Cons page pages)
  from Cons.prems have "gauge (processHosts tp (hr_Results page) r1) = gauge (processHosts tp (hr_Results page) r2)"
    by (rule gauge_processHosts_cong)
  from Cons.IH [OF this] show ?case by (simp add: processPages_Cons)
qed

lemma processPages_frame:
  "scrapeDuration (processPages tp reg pages) = scrapeDuration reg"
  "scrapeErrors (processPages tp reg pages) = scrapeErrors reg"
  "hostsProcessed (processPages tp reg pages) =
     hostsProcessed reg + sum_list (map (\<lambda>page. length (hr_Results page)) pages)"
  by (induction pages arbitrary: reg) (simp_all add: processPages_def processHosts_frame)

lemma gauge_Reset_empty: "gauge (ResetAllMetrics reg) = gauge empty_registry"
  by (rule ext) (simp add: ResetAllMetrics_gauge empty_registry_def)

section \<open>A scrape that fails\<close>

lemma failed_scrape:
  assumes "fetchAndUpdateMetrics fuel tp um srv elapsed config reg = Some (reg', reqs, Some err)"
  shows "reg' = Observe elapsed (RecordScrapeError (processPages tp (ResetAllMetrics reg)
                  (decodedPages fuel um srv config (buildURL config ''/api/v2/hosts/?format=json'') 0)))"
    and "gauge reg' = gauge (processPages tp empty_registry
                  (decodedPages fuel um srv config (buildURL config ''/api/v2/hosts/?format=json'') 0))"
    and "scrapeErrors reg' = scrapeErrors reg + 1"
    and "hostsProcessed reg' = hostsProcessed reg + sum_list (map (\<lambda>page. length (hr_Results page))
                  (decodedPages fuel um srv config (buildURL config ''/api/v2/hosts/?format=json'') 0))"
proof -
  from assms obtain r where
    r: "fetchLoop fuel tp um srv config (buildURL config ''/api/v2/hosts/?format=json'') []
          (ResetAllMetrics reg) = Some (r, reqs, Some err)" and reg': "reg' = Observe elapsed r"
    by (auto simp add: fetchAndUpdateMetrics_def split: option.splits)
  from fetchLoop_registry [OF r]
  have r_eq: "r = RecordScrapeError (processPages tp (ResetAllMetrics reg)
                  (decodedPages fuel um srv config (buildURL config ''/api/v2/hosts/?format=json'') 0))"
    by simp
  show 1: "reg' = Observe elapsed (RecordScrapeError (processPages tp (ResetAllMetrics reg)
                  (decodedPages fuel um srv config (buildURL config ''/api/v2/hosts/?format=json'') 0)))"
    by (simp add: reg' r_eq)
  show "gauge reg' = gauge (processPages tp empty_registry
                  (decodedPages fuel um srv config (buildURL config ''/api/v2/hosts/?format=json'') 0))"
    unfolding 1 using gauge_processPages_cong [OF gauge_Reset_empty]
    by (simp add: Observe_def RecordScrapeError_def)
  show "scrapeErrors reg' = scrapeErrors reg + 1"
    unfolding 1 by (simp add: Observe_def RecordScrapeError_def processPages_frame ResetAllMetrics_frame)
  show "hostsProcessed reg' = hostsProcessed reg + sum_list (map (\<lambda>page. length (hr_Results page))
                  (decodedPages fuel um srv config (buildURL config ''/api/v2/hosts/?format=json'') 0))"
    unfolding 1 by (simp add: Observe_def RecordScrapeError_def processPages_frame ResetAllMetrics_frame)
qed

lemma writes_append: "writes fam (xs @ ys) = writes fam xs @ writes fam ys"
  by (simp add: writes_def)

lemma gauge_processPages:
  "gauge (processPages tp reg pages) fam =
     gauge reg fam ++
       map_of (rev (writes fam (concat (map (\<lambda>page. concat (map (\<lambda>host. fst (processHost tp host))
                                                       (hr_Results page))) pages))))"
proof (induction pages arbitrary: reg)
  case Nil
  show ?case by (simp add: processPages_def writes_def)
next
  case (Cons page pages)
  show ?case
    unfolding processPages_Cons Cons.IH gauge_processHosts
    by (simp add: writes_append)
qed

lemma gauge_processPages_twice:
  "gauge (processPages tp (processPages tp reg pages) pages) = gauge (processPages tp reg pages)"
  by (rule ext) (simp add: gauge_processPages map_add_twice)

section \<open>Three concrete scrapes\<close>

lemma buildURL_start:
  "buildURL config_ex ''/api/v2/hosts/?format=json'' = ''https://awx.example.com/api/v2/hosts/?format=json''"
  by (simp add: buildURL_def config_ex_def)

lemma buildURL_page2:
  "buildURL config_ex ''/api/v2/hosts/?format=json&page=2'' =
     ''https://awx.example.com/api/v2/hosts/?format=json&page=2''"
  by (simp add: buildURL_def config_ex_def)

lemma request_one:
  "makeAWXRequest srv_one n config_ex ''https://awx.example.com/api/v2/hosts/?format=json'' = Inr ''only''"
  by (simp add: makeAWXRequest_def srv_one_def ok_response_def)

lemma request_two:
  "makeAWXRequest srv_two n config_ex ''https://awx.example.com/api/v2/hosts/?format=json'' = Inr ''first''"
  "makeAWXRequest srv_two n config_ex ''https://awx.example.com/api/v2/hosts/?format=json&page=2'' = Inr ''second''"
  by (simp_all add: makeAWXRequest_def srv_two_def ok_response_def)

lemma request_break:
  "makeAWXRequest srv_break n config_ex ''https://awx.example.com/api/v2/hosts/?format=json'' = Inr ''first''"
  "makeAWXRequest srv_break n config_ex ''https://awx.example.com/api/v2/hosts/?format=json&page=2'' = Inr ''{trunc''"
  by (simp_all add: makeAWXRequest_def srv_break_def ok_response_def)

lemma um_ex_values:
  "um_ex ''only'' = Some page_only" "um_ex ''first'' = Some page_first"
  "um_ex ''second'' = Some page_second" "um_ex ''{trunc'' = None"
  by (simp_all add: um_ex_def)

lemma next_values:
  "buildURL config_ex (hr_Next page_only) = ''''"
  "buildURL config_ex (hr_Next page_first) = ''https://awx.example.com/api/v2/hosts/?format=json&page=2''"
  "buildURL config_ex (hr_Next page_second) = ''''"
  by (simp_all add: page_only_def page_first_def page_second_def buildURL_page2)
     (simp_all add: buildURL_def)

lemma fetchLoop_one:
  "fetchLoop (Suc (Suc fuel)) tp_ex um_ex srv_one config_ex
      ''https://awx.example.com/api/v2/hosts/?format=json'' [] reg =
   Some (processHosts tp_ex [host_lonely] reg,
         [''https://awx.example.com/api/v2/hosts/?format=json''], None)"
  by (simp add: request_one um_ex_values next_values) (simp add: page_only_def)

lemma fetchLoop_two:
  "fetchLoop (Suc (Suc (Suc fuel))) tp_ex um_ex srv_two config_ex
      ''https://awx.example.com/api/v2/hosts/?format=json'' [] reg =
   Some (processHosts tp_ex [host_stale] (processHosts tp_ex [host_web1] reg),
         [''https://awx.example.com/api/v2/hosts/?format=json'',
          ''https://awx.example.com/api/v2/hosts/?format=json&page=2''], None)"
  by (simp add: request_two um_ex_values next_values) (simp add: page_first_def page_second_def)

lemma fetchLoop_break:
  "fetchLoop (Suc (Suc fuel)) tp_ex um_ex srv_break config_ex
      ''https://awx.example.com/api/v2/hosts/?format=json'' [] reg =
   Some (RecordScrapeError (processHosts tp_ex [host_web1] reg),
         [''https://awx.example.com/api/v2/hosts/?format=json'',
          ''https://awx.example.com/api/v2/hosts/?format=json&page=2''],
         Some (JSONError ''https://awx.example.com/api/v2/hosts/?format=json&page=2''))"
  by (simp add: request_break um_ex_values next_values) (simp add: page_first_def)

lemma decodedPages_break:
  "decodedPages (Suc (Suc fuel)) um_ex srv_break config_ex
      ''https://awx.example.com/api/v2/hosts/?format=json'' 0 = [page_first]"
  by (simp add: request_break um_ex_values next_values)

lemma decodedPages_two:
  "decodedPages (Suc (Suc (Suc fuel))) um_ex srv_two config_ex
      ''https://awx.example.com/api/v2/hosts/?format=json'' 0 = [page_first, page_second]"
  by (simp add: request_two um_ex_values next_values)

lemma collect_one:
  "collect (Suc (Suc fuel)) tp_ex um_ex (srv_one, d) config_ex reg =
     Some (Observe d (processHosts tp_ex [host_lonely] (ResetAllMetrics reg)))"
  by (simp add: collect_def fetchAndUpdateMetrics_def buildURL_start fetchLoop_one del: fetchLoop.simps)

lemma collect_break:
  "collect (Suc (Suc fuel)) tp_ex um_ex (srv_break, d) config_ex reg =
     Some (RecordScrapeError (Observe d (RecordScrapeError (processHosts tp_ex [host_web1] (ResetAllMetrics reg)))))"
  by (simp add: collect_def fetchAndUpdateMetrics_def buildURL_start fetchLoop_break del: fetchLoop.simps)

lemma gauge_frame [simp]:
  "gauge (Observe d reg) = gauge reg" "gauge (RecordScrapeError reg) = gauge reg"
  "gauge (IncrementHostsProcessed n reg) = gauge reg"
  by (simp_all add: Observe_def RecordScrapeError_def IncrementHostsProcessed_def)

section \<open>Claims about the scrape cycle\<close>

text \<open>
  Claim C8. \<^verbatim>\<open>ResetAllMetrics\<close> empties every entity gauge vector (host info, host
  status, host timestamps, group membership, group info: these five are all the
  families) and leaves the two counters and the histogram as they were. No step of a
  scrape resets them: a collection appends one observation to the histogram and never
  lowers a counter, and so does the whole loop of \<^verbatim>\<open>updateMetrics\<close>.
\<close>

theorem reset_spares_self_monitoring:
  "gauge (ResetAllMetrics reg) f = Map.empty
   \<and> scrapeErrors (ResetAllMetrics reg) = scrapeErrors reg
   \<and> hostsProcessed (ResetAllMetrics reg) = hostsProcessed reg
   \<and> scrapeDuration (ResetAllMetrics reg) = scrapeDuration reg
   \<and> (fetchAndUpdateMetrics fuel tp um srv elapsed config reg = Some (reg_f, reqs, err) \<longrightarrow>
        scrapeDuration reg_f = scrapeDuration reg @ [elapsed]
        \<and> hostsProcessed reg \<le> hostsProcessed reg_f
        \<and> scrapeErrors reg \<le> scrapeErrors reg_f)
   \<and> (updateMetrics fuel tp um initial ticks config reg = Some reg_u \<longrightarrow>
        scrapeDuration reg_u = scrapeDuration reg @ map snd (initial # ticks)
        \<and> hostsProcessed reg \<le> hostsProcessed reg_u
        \<and> scrapeErrors reg \<le> scrapeErrors reg_u)"
  using fetchAndUpdateMetrics_counters [of fuel tp um srv elapsed config reg reg_f reqs err]
    updateMetrics_counters [of fuel tp um initial ticks config reg reg_u]
  by (simp add: ResetAllMetrics_gauge ResetAllMetrics_frame)

theorem reset_spares_self_monitoring_witness:
  "gauge reg_busy hostInfo [''1'', ''old'', ''2'', ''prod'', ''true'', ''''] = Some 1
   \<and> gauge (ResetAllMetrics reg_busy) hostInfo [''1'', ''old'', ''2'', ''prod'', ''true'', ''''] = None
   \<and> scrapeErrors (ResetAllMetrics reg_busy) = 4
   \<and> hostsProcessed (ResetAllMetrics reg_busy) = 10
   \<and> scrapeDuration (ResetAllMetrics reg_busy) = [1]
   \<and> map_option (\<lambda>(r, reqs, err). (scrapeDuration r, hostsProcessed r, scrapeErrors r))
       (fetchAndUpdateMetrics (Suc (Suc (Suc 0))) tp_ex um_ex srv_one 2 config_ex reg_busy) =
       Some ([1, 2], 11, 4)
   \<and> map_option (\<lambda>r. (scrapeDuration r, hostsProcessed r, scrapeErrors r))
       (updateMetrics (Suc (Suc (Suc 0))) tp_ex um_ex (srv_one, 2) [(srv_break, 3)] config_ex reg_busy) =
       Some ([1, 2, 3], 12, 6)"
proof -
  define F where "F = Observe 2 (processHosts tp_ex [host_lonely] (ResetAllMetrics reg_busy))"
  define R where "R = RecordScrapeError (Observe 3 (RecordScrapeError (processHosts tp_ex [host_web1]
      (ResetAllMetrics F))))"
  have f: "fetchAndUpdateMetrics (Suc (Suc (Suc 0))) tp_ex um_ex srv_one 2 config_ex reg_busy =
      Some (F, [''https://awx.example.com/api/v2/hosts/?format=json''], None)"
    by (simp add: F_def fetchAndUpdateMetrics_def buildURL_start fetchLoop_one del: fetchLoop.simps)
  have e: "updateMetrics (Suc (Suc (Suc 0))) tp_ex um_ex (srv_one, 2) [(srv_break, 3)] config_ex reg_busy = Some R"
    by (simp add: R_def F_def updateMetrics_def collect_one collect_break)
  note a = reset_spares_self_monitoring [where reg = reg_busy and f = hostInfo
      and fuel = "Suc (Suc (Suc 0))" and tp = tp_ex and um = um_ex and srv = srv_one and elapsed = 2
      and config = config_ex and reg_f = F
      and reqs = "[''https://awx.example.com/api/v2/hosts/?format=json'']" and err = None
      and initial = "(srv_one, 2)" and ticks = "[(srv_break, 3)]" and reg_u = R]
  have 1: "scrapeDuration F = [1, 2]" "scrapeDuration R = [1, 2, 3]"
    using a e f by (simp_all add: reg_busy_def)
  have 2: "hostsProcessed F = 11" "scrapeErrors F = 4" "hostsProcessed R = 12" "scrapeErrors R = 6"
    by (simp_all add: R_def F_def RecordScrapeError_def Observe_def processHosts_frame
        ResetAllMetrics_frame reg_busy_def)
  have 3: "gauge (ResetAllMetrics reg_busy) hostInfo [''1'', ''old'', ''2'', ''prod'', ''true'', ''''] = None"
    using a by simp
  from 1 2 3 a e f show ?thesis by (simp add: reg_busy_def)
qed

text \<open>
  Claim C4. A \<^verbatim>\<open>next\<close> value with the prefix \<^verbatim>\<open>http://\<close> or \<^verbatim>\<open>https://\<close> is used as
  it is. The empty string and a bare slash resolve to the empty string, on which the
  loop returns without a further call of the fetch operation. Every other value is
  put behind the configured scheme and host (with a slash added when it has none) and
  is not empty. In every walk that returns, the calls of the fetch operation are the
  start URL followed by the resolved \<^verbatim>\<open>next\<close> of each decoded page, one call for each,
  and a walk that returns without error ends at a page whose \<^verbatim>\<open>next\<close> resolves to
  the empty string. The walk returns whenever the fuel exceeds the number of pages it
  decodes (it is \<open>None\<close> exactly when it decodes as many pages as it has fuel), and
  then more fuel changes neither the pages nor the result.
\<close>

theorem pagination_next_resolution:
  "(prefix ''http://'' nxt \<or> prefix ''https://'' nxt \<longrightarrow> buildURL config nxt = nxt)
   \<and> (nxt = '''' \<or> nxt = ''/'' \<longrightarrow>
        buildURL config nxt = ''''
        \<and> fetchLoop (Suc fuel) tp um srv config (buildURL config nxt) reqs reg = Some (reg, reqs, None))
   \<and> (\<not> prefix ''http://'' nxt \<and> \<not> prefix ''https://'' nxt \<and> nxt \<noteq> '''' \<and> nxt \<noteq> ''/'' \<longrightarrow>
        buildURL config nxt =
          (if cfg_UseHTTP config then ''http'' else ''https'') @ ''://'' @ cfg_Host config @
            (if prefix ''/'' nxt then nxt else ''/'' @ nxt))
   \<and> ((buildURL config nxt = '''') = (nxt = '''' \<or> nxt = ''/''))
   \<and> (fetchLoop fuel tp um srv config url reqs reg = Some (reg', reqs', err) \<longrightarrow>
        reqs' @ (if err = None then [''''] else []) =
          reqs @ (if url = '''' then ['''']
                  else url # map (\<lambda>page. buildURL config (hr_Next page))
                               (decodedPages fuel um srv config url (length reqs))))
   \<and> ((fetchLoop fuel tp um srv config url reqs reg = None) =
        (length (decodedPages fuel um srv config url (length reqs)) = fuel))
   \<and> (length (decodedPages fuel um srv config url (length reqs)) < fuel \<longrightarrow>
        (\<exists>r q e. fetchLoop fuel tp um srv config url reqs reg = Some (r, q, e)
           \<and> q @ (if e = None then [''''] else []) =
               reqs @ (if url = '''' then ['''']
                       else url # map (\<lambda>page. buildURL config (hr_Next page))
                                    (decodedPages fuel um srv config url (length reqs))))
        \<and> decodedPages (fuel + k) um srv config url (length reqs) =
            decodedPages fuel um srv config url (length reqs)
        \<and> fetchLoop (fuel + k) tp um srv config url reqs reg =
            fetchLoop fuel tp um srv config url reqs reg)"
proof -
  have a: "nxt = '''' \<or> nxt = ''/'' \<Longrightarrow>
        fetchLoop (Suc fuel) tp um srv config (buildURL config nxt) reqs reg = Some (reg, reqs, None)"
    by (simp add: buildURL_empty_iff)
  have b: "length (decodedPages fuel um srv config url (length reqs)) < fuel \<Longrightarrow>
        fetchLoop (fuel + k) tp um srv config url reqs reg =
          fetchLoop fuel tp um srv config url reqs reg"
  proof -
    assume "length (decodedPages fuel um srv config url (length reqs)) < fuel"
    then have "fetchLoop fuel tp um srv config url reqs reg \<noteq> None"
      by (simp add: fetchLoop_None_iff)
    then obtain res where "fetchLoop fuel tp um srv config url reqs reg = Some res" by auto
    with fetchLoop_more_fuel [OF this, of k] show ?thesis by simp
  qed
  show ?thesis
    using a b buildURL_absolute [of nxt config] buildURL_relative [of nxt config]
      buildURL_empty_iff [of config nxt]
      fetchLoop_requests [of fuel tp um srv config url reqs reg reg' reqs' err]
      fetchLoop_None_iff [of fuel tp um srv config url reqs reg]
      fetchLoop_returns [of fuel um srv config url reqs tp reg]
      decodedPages_more_fuel [of fuel um srv config url "length reqs" k]
    by blast
qed

theorem pagination_next_resolution_witness:
  "buildURL config_ex ''https://elsewhere.example.org/api/v2/hosts/?page=3'' =
     ''https://elsewhere.example.org/api/v2/hosts/?page=3''
   \<and> buildURL config_ex ''/'' = ''''
   \<and> fetchLoop (Suc 0) tp_ex um_ex srv_two config_ex (buildURL config_ex ''/'') [] empty_registry =
       Some (empty_registry, [], None)
   \<and> buildURL config_ex ''api/v2/hosts/?page=2'' = ''https://awx.example.com/api/v2/hosts/?page=2''
   \<and> length (decodedPages (Suc (Suc (Suc 0))) um_ex srv_two config_ex
        ''https://awx.example.com/api/v2/hosts/?format=json'' 0) = 2
   \<and> map_option (\<lambda>(r, reqs, err). (reqs, err))
       (fetchLoop (Suc (Suc (Suc 0))) tp_ex um_ex srv_two config_ex
          ''https://awx.example.com/api/v2/hosts/?format=json'' [] empty_registry) =
       Some ([''https://awx.example.com/api/v2/hosts/?format=json'',
              ''https://awx.example.com/api/v2/hosts/?format=json&page=2''], None)
   \<and> fetchLoop (Suc (Suc (Suc 0)) + 4) tp_ex um_ex srv_two config_ex
          ''https://awx.example.com/api/v2/hosts/?format=json'' [] empty_registry =
       fetchLoop (Suc (Suc (Suc 0))) tp_ex um_ex srv_two config_ex
          ''https://awx.example.com/api/v2/hosts/?format=json'' [] empty_registry
   \<and> fetchLoop (Suc 0) tp_ex um_ex srv_two config_ex
          ''https://awx.example.com/api/v2/hosts/?format=json'' [] empty_registry = None"
proof -
  define R where "R = processHosts tp_ex [host_stale] (processHosts tp_ex [host_web1] empty_registry)"
  define Q where "Q = [''https://awx.example.com/api/v2/hosts/?format=json'',
                       ''https://awx.example.com/api/v2/hosts/?format=json&page=2'']"
  have e: "fetchLoop (Suc (Suc (Suc 0))) tp_ex um_ex srv_two config_ex
             ''https://awx.example.com/api/v2/hosts/?format=json'' [] empty_registry = Some (R, Q, None)"
    unfolding R_def Q_def by (rule fetchLoop_two)
  have p: "decodedPages (Suc (Suc (Suc 0))) um_ex srv_two config_ex
             ''https://awx.example.com/api/v2/hosts/?format=json'' (length ([] :: string list)) =
           [page_first, page_second]"
    by (simp add: decodedPages_two del: decodedPages.simps)
  have p1: "decodedPages (Suc 0) um_ex srv_two config_ex
             ''https://awx.example.com/api/v2/hosts/?format=json'' (length ([] :: string list)) =
           [page_first]"
    by (simp add: request_two um_ex_values)
  note a = pagination_next_resolution [where nxt = "''https://elsewhere.example.org/api/v2/hosts/?page=3''"
      and config = config_ex and fuel = "Suc (Suc (Suc 0))" and tp = tp_ex and um = um_ex and srv = srv_two
      and reqs = "[]" and reg = empty_registry
      and url = "''https://awx.example.com/api/v2/hosts/?format=json''" and reg' = R and reqs' = Q
      and err = None and k = 4]
  note b = pagination_next_resolution [where nxt = "''/''"
      and config = config_ex and fuel = 0 and tp = tp_ex and um = um_ex and srv = srv_two
      and reqs = "[]" and reg = empty_registry
      and url = "''https://awx.example.com/api/v2/hosts/?format=json''" and reg' = R and reqs' = Q
      and err = None and k = 0]
  note c = pagination_next_resolution [where nxt = "''api/v2/hosts/?page=2''"
      and config = config_ex and fuel = "Suc 0" and tp = tp_ex and um = um_ex and srv = srv_two
      and reqs = "[]" and reg = empty_registry
      and url = "''https://awx.example.com/api/v2/hosts/?format=json''" and reg' = R and reqs' = Q
      and err = None and k = 0]
  have 1: "buildURL config_ex ''https://elsewhere.example.org/api/v2/hosts/?page=3'' =
     ''https://elsewhere.example.org/api/v2/hosts/?page=3''"
    using a by simp
  have 2: "buildURL config_ex ''/'' = ''''
     \<and> fetchLoop (Suc 0) tp_ex um_ex srv_two config_ex (buildURL config_ex ''/'') [] empty_registry =
       Some (empty_registry, [], None)"
    using b by blast
  have 3: "buildURL config_ex ''api/v2/hosts/?page=2'' = ''https://awx.example.com/api/v2/hosts/?page=2''"
    using c by (simp add: config_ex_def)
  have 4: "Q @ [''''] = ''https://awx.example.com/api/v2/hosts/?format=json'' #
               map (\<lambda>page. buildURL config_ex (hr_Next page)) [page_first, page_second]"
    using a e unfolding p by (simp del: decodedPages.simps fetchLoop.simps)
  have 5: "fetchLoop (Suc (Suc (Suc 0)) + 4) tp_ex um_ex srv_two config_ex
          ''https://awx.example.com/api/v2/hosts/?format=json'' [] empty_registry =
       fetchLoop (Suc (Suc (Suc 0))) tp_ex um_ex srv_two config_ex
          ''https://awx.example.com/api/v2/hosts/?format=json'' [] empty_registry"
    using a unfolding p by (simp del: decodedPages.simps fetchLoop.simps)
  have 6: "fetchLoop (Suc 0) tp_ex um_ex srv_two config_ex
          ''https://awx.example.com/api/v2/hosts/?format=json'' [] empty_registry = None"
    using c unfolding p1 by (simp del: decodedPages.simps fetchLoop.simps)
  have 7: "length (decodedPages (Suc (Suc (Suc 0))) um_ex srv_two config_ex
        ''https://awx.example.com/api/v2/hosts/?format=json'' 0) = 2"
    using p by simp
  have 8: "map_option (\<lambda>(r, reqs, err). (reqs, err))
       (fetchLoop (Suc (Suc (Suc 0))) tp_ex um_ex srv_two config_ex
          ''https://awx.example.com/api/v2/hosts/?format=json'' [] empty_registry) =
       Some ([''https://awx.example.com/api/v2/hosts/?format=json'',
              ''https://awx.example.com/api/v2/hosts/?format=json&page=2''], None)"
    using 4 e by (simp add: Q_def del: decodedPages.simps fetchLoop.simps)
  from 1 2 3 5 6 7 8 show ?thesis by blast
qed

text \<open>
  Claim C9 as stated fails: the registry after two runs differs from the registry after
  one run, in the counter \<^verbatim>\<open>hosts_processed_total\<close>.
\<close>

theorem processHosts_twice_counterexample:
  "hostsProcessed (processHosts tp_ex [host_web1] empty_registry) = 1
   \<and> hostsProcessed (processHosts tp_ex [host_web1] (processHosts tp_ex [host_web1] empty_registry)) = 2
   \<and> processHosts tp_ex [host_web1] (processHosts tp_ex [host_web1] empty_registry)
       \<noteq> processHosts tp_ex [host_web1] empty_registry"
proof -
  have 1: "hostsProcessed (processHosts tp_ex [host_web1] empty_registry) = 1"
    by (simp add: processHosts_frame empty_registry_def)
  have 2: "hostsProcessed (processHosts tp_ex [host_web1] (processHosts tp_ex [host_web1] empty_registry)) = 2"
    by (simp add: processHosts_frame empty_registry_def)
  from 1 2 show ?thesis by auto
qed

text \<open>
  Claim C9, amended. Running \<^verbatim>\<open>processHosts\<close> twice on the same hosts (or all pages
  of a page set twice) leaves the five gauge vectors as one run leaves them; the
  scrape-error counter and the histogram are untouched; \<^verbatim>\<open>hosts_processed_total\<close> is
  raised by the number of hosts again.
\<close>

theorem processHosts_twice:
  "gauge (processHosts tp hosts (processHosts tp hosts reg)) = gauge (processHosts tp hosts reg)
   \<and> gauge (processPages tp (processPages tp reg pages) pages) = gauge (processPages tp reg pages)
   \<and> hostsProcessed (processHosts tp hosts (processHosts tp hosts reg)) =
       hostsProcessed (processHosts tp hosts reg) + length hosts
   \<and> scrapeErrors (processHosts tp hosts (processHosts tp hosts reg)) =
       scrapeErrors (processHosts tp hosts reg)
   \<and> scrapeDuration (processHosts tp hosts (processHosts tp hosts reg)) =
       scrapeDuration (processHosts tp hosts reg)"
  by (simp add: gauge_processHosts_twice gauge_processPages_twice processHosts_frame)

theorem processHosts_twice_witness:
  "gauge (processHosts tp_ex [host_stale, host_web1] (processHosts tp_ex [host_stale, host_web1] reg_busy)) =
     gauge (processHosts tp_ex [host_stale, host_web1] reg_busy)
   \<and> hostsProcessed (processHosts tp_ex [host_stale, host_web1]
        (processHosts tp_ex [host_stale, host_web1] reg_busy)) = 14
   \<and> hostsProcessed (processHosts tp_ex [host_stale, host_web1] reg_busy) = 12"
  using processHosts_twice [of tp_ex "[host_stale, host_web1]" reg_busy "[]"]
  by (simp add: processHosts_frame reg_busy_def)

text \<open>
  Claim C1 as stated fails. After a successful scrape of one page (host "lonely"), a
  scrape whose second page does not decode leaves a registry without the entry of
  "lonely" and with the entry of "web1" from its first page; the scrape-error counter
  has gone from 0 to 2, since \<^verbatim>\<open>updateMetrics\<close> records the error that
  \<^verbatim>\<open>fetchAndUpdateMetrics\<close> has already recorded.
\<close>

theorem failed_scrape_keeps_previous_counterexample:
  "map_option (\<lambda>r. (gauge r hostInfo [''9'', ''lonely'', ''2'', ''prod'', ''true'', ''''], scrapeErrors r))
     (updateMetrics (Suc (Suc (Suc 0))) tp_ex um_ex (srv_one, 2) [] config_ex empty_registry) =
     Some (Some 1, 0)
   \<and> map_option (\<lambda>r. (gauge r hostInfo [''9'', ''lonely'', ''2'', ''prod'', ''true'', ''''],
                      gauge r hostInfo [''7'', ''web1'', ''2'', ''prod'', ''true'', ''i-1''],
                      scrapeErrors r))
       (updateMetrics (Suc (Suc (Suc 0))) tp_ex um_ex (srv_one, 2) [(srv_break, 3)] config_ex empty_registry) =
     Some (None, Some 1, 2)"
  by (simp add: updateMetrics_def collect_one collect_break gauge_processHosts ResetAllMetrics_gauge
      processHost_web1 processHost_lonely writes_def processHosts_frame ResetAllMetrics_frame
      RecordScrapeError_def Observe_def empty_registry_def)

text \<open>
  Claim C1, amended. When \<^verbatim>\<open>fetchAndUpdateMetrics\<close> returns an error, the registry is
  the reset registry after the pages decoded before the failure, with one scrape error
  recorded and the duration observed. So the gauge vectors hold exactly what those
  pages write on an empty registry (nothing of the previous scrape is left, and the
  earlier pages of the failed scrape are published), \<^verbatim>\<open>scrape_errors_total\<close> has been
  incremented by one inside \<^verbatim>\<open>fetchAndUpdateMetrics\<close>, and \<^verbatim>\<open>hosts_processed_total\<close>
  has grown by the number of hosts on those pages.
\<close>

theorem failed_scrape_registry:
  assumes "fetchAndUpdateMetrics fuel tp um srv elapsed config reg = Some (reg', reqs, Some err)"
  shows "reg' = Observe elapsed (RecordScrapeError (processPages tp (ResetAllMetrics reg)
                  (decodedPages fuel um srv config (buildURL config ''/api/v2/hosts/?format=json'') 0)))
       \<and> gauge reg' = gauge (processPages tp empty_registry
                  (decodedPages fuel um srv config (buildURL config ''/api/v2/hosts/?format=json'') 0))
       \<and> scrapeErrors reg' = scrapeErrors reg + 1
       \<and> hostsProcessed reg' = hostsProcessed reg + sum_list (map (\<lambda>page. length (hr_Results page))
                  (decodedPages fuel um srv config (buildURL config ''/api/v2/hosts/?format=json'') 0))"
  using failed_scrape [OF assms] by simp

theorem failed_scrape_registry_witness:
  "map_option (\<lambda>(r, reqs, err).
       (gauge r hostInfo [''1'', ''old'', ''2'', ''prod'', ''true'', ''''],
        gauge r hostInfo [''7'', ''web1'', ''2'', ''prod'', ''true'', ''i-1''],
        scrapeErrors r, hostsProcessed r, err))
     (fetchAndUpdateMetrics (Suc (Suc (Suc 0))) tp_ex um_ex srv_break 3 config_ex reg_busy) =
   Some (None, Some 1, 5, 11,
         Some (JSONError ''https://awx.example.com/api/v2/hosts/?format=json&page=2''))"
proof -
  define R where "R = Observe 3 (RecordScrapeError (processHosts tp_ex [host_web1] (ResetAllMetrics reg_busy)))"
  have e: "fetchAndUpdateMetrics (Suc (Suc (Suc 0))) tp_ex um_ex srv_break 3 config_ex reg_busy =
      Some (R, [''https://awx.example.com/api/v2/hosts/?format=json'',
                ''https://awx.example.com/api/v2/hosts/?format=json&page=2''],
            Some (JSONError ''https://awx.example.com/api/v2/hosts/?format=json&page=2''))"
    by (simp add: R_def fetchAndUpdateMetrics_def buildURL_start fetchLoop_break del: fetchLoop.simps)
  note fs = failed_scrape_registry [OF e, unfolded buildURL_start decodedPages_break]
  have g: "gauge R = gauge (processPages tp_ex empty_registry [page_first])"
    by (rule fs [THEN conjunct2, THEN conjunct1])
  have s: "scrapeErrors R = scrapeErrors reg_busy + 1"
    by (rule fs [THEN conjunct2, THEN conjunct2, THEN conjunct1])
  have h: "hostsProcessed R = hostsProcessed reg_busy + length (hr_Results page_first)"
    using fs [THEN conjunct2, THEN conjunct2, THEN conjunct2] by simp
  have "gauge R hostInfo [''1'', ''old'', ''2'', ''prod'', ''true'', ''''] = None"
    and "gauge R hostInfo [''7'', ''web1'', ''2'', ''prod'', ''true'', ''i-1''] = Some 1"
    unfolding g
    by (simp_all add: processPages_def page_first_def gauge_processHosts processHost_web1 writes_def
        empty_registry_def)
  with e s h show ?thesis by (simp add: reg_busy_def page_first_def)
qed

end
